theory Spec2Isabelle
  imports Main "HOL-Library.AList"
begin

section \<open>JavaScript values\<close>

text \<open>
  The inventory lives in one JavaScript variable whose value comes from \<^verbatim>\<open>JSON.parse\<close>
  or from object literals, so it is modelled as a JSON value. Numbers are the integers
  (identifiers are millisecond timestamps), strings are lists of code units below 256,
  an object is its list of own properties in insertion order, and a property that is
  absent reads as \<^verbatim>\<open>undefined\<close>, the value \<open>None\<close> of \<open>get_prop\<close>.
\<close>

datatype json =
    JNull
  | JBool bool
  | JNum int
  | JStr string
  | JArr "json list"
  | JObj "(string \<times> json) list"

text \<open>A call either throws a \<^verbatim>\<open>TypeError\<close> or returns a value.\<close>

datatype 'a completion = Throws | Returns 'a

text \<open>
  \<^verbatim>\<open>v.k\<close> for a value \<open>v\<close> that is not \<^verbatim>\<open>null\<close>: only objects own the
  properties read by this program (\<^verbatim>\<open>id\<close>, \<^verbatim>\<open>imei\<close>, \<^verbatim>\<open>brand\<close>, \<^verbatim>\<open>model\<close>,
  \<^verbatim>\<open>sold\<close>). Reading a property of \<^verbatim>\<open>null\<close> throws; the callers test for it.
\<close>

fun get_prop :: "string \<Rightarrow> json \<Rightarrow> json option" where
  "get_prop k (JObj ps) = map_of ps k"
| "get_prop k v = None"

text \<open>
  \<^verbatim>\<open>{...target, ...src}\<close>: every own property of \<open>src\<close> is defined on the target, in
  order; a key already there keeps its place and takes the new value.
\<close>

definition spread :: "(string \<times> json) list \<Rightarrow> (string \<times> json) list \<Rightarrow> (string \<times> json) list" where
  "spread target src = fold (\<lambda>(k, v) acc. AList.update k v acc) src target"

text \<open>The own properties of an element found by its id, which \<^verbatim>\<open>{...v, ...src}\<close>
  copies into the new object before it defines those of \<open>src\<close>.\<close>

fun own_props :: "json \<Rightarrow> (string \<times> json) list" where
  "own_props (JObj ps) = ps"
| "own_props v = []"

text \<open>\<^verbatim>\<open>v.k = x\<close> on an object.\<close>

fun assign :: "string \<Rightarrow> json \<Rightarrow> json \<Rightarrow> json" where
  "assign k x (JObj ps) = JObj (AList.update k x ps)"
| "assign k x v = v"

text \<open>
  \<^verbatim>\<open>Array.prototype.some\<close>, \<^verbatim>\<open>findIndex\<close> and \<^verbatim>\<open>filter\<close> with a callback that may
  throw: \<open>some\<close> and \<open>findIndex\<close> stop at the first hit, \<open>filter\<close> visits every element.
\<close>

fun some_js :: "('a \<Rightarrow> bool completion) \<Rightarrow> 'a list \<Rightarrow> bool completion" where
  "some_js p [] = Returns False"
| "some_js p (x # xs) =
     (case p x of Throws \<Rightarrow> Throws
      | Returns True \<Rightarrow> Returns True
      | Returns False \<Rightarrow> some_js p xs)"

fun findIndex_js :: "('a \<Rightarrow> bool completion) \<Rightarrow> 'a list \<Rightarrow> nat option completion" where
  "findIndex_js p [] = Returns None"
| "findIndex_js p (x # xs) =
     (case p x of Throws \<Rightarrow> Throws
      | Returns True \<Rightarrow> Returns (Some 0)
      | Returns False \<Rightarrow>
          (case findIndex_js p xs of Throws \<Rightarrow> Throws
           | Returns None \<Rightarrow> Returns None
           | Returns (Some k) \<Rightarrow> Returns (Some (Suc k))))"

fun filter_js :: "('a \<Rightarrow> bool completion) \<Rightarrow> 'a list \<Rightarrow> 'a list completion" where
  "filter_js p [] = Returns []"
| "filter_js p (x # xs) =
     (case p x of Throws \<Rightarrow> Throws
      | Returns b \<Rightarrow>
          (case filter_js p xs of Throws \<Rightarrow> Throws
           | Returns ys \<Rightarrow> Returns (if b then x # ys else ys)))"

section \<open>Strings\<close>

text \<open>\<^verbatim>\<open>String.prototype.trim\<close>: white space and line terminators below 256.\<close>

definition is_space :: "char \<Rightarrow> bool" where
  "is_space c = (c \<in> set [CHR 0x09, CHR 0x0A, CHR 0x0B, CHR 0x0C, CHR 0x0D, CHR 0x20, CHR 0xA0])"

definition trim :: "string \<Rightarrow> string" where
  "trim s = rev (dropWhile is_space (rev (dropWhile is_space s)))"

text \<open>The character class \<^verbatim>\<open>\d\<close> of a regular expression without flags.\<close>

definition is_digit :: "char \<Rightarrow> bool" where
  "is_digit c = (c \<in> set ''0123456789'')"

text \<open>\<^verbatim>\<open>String.prototype.toLowerCase\<close> on code units below 256.\<close>

definition lower_char :: "char \<Rightarrow> char" where
  "lower_char c =
     (let n = (of_char c :: nat)
      in if (65 \<le> n \<and> n \<le> 90) \<or> (192 \<le> n \<and> n \<le> 222 \<and> n \<noteq> 215)
         then char_of (n + 32) else c)"

definition toLowerCase :: "string \<Rightarrow> string" where
  "toLowerCase s = map lower_char s"

text \<open>\<^verbatim>\<open>s.includes(t)\<close>: \<open>t\<close> occurs in \<open>s\<close> as a contiguous run.\<close>

fun str_includes :: "string \<Rightarrow> string \<Rightarrow> bool" where
  "str_includes [] t = (t = [])"
| "str_includes (c # cs) t = (take (length t) (c # cs) = t \<or> str_includes cs t)"

section \<open>The inventory manager (script.js)\<close>

text \<open>
  The manager is modelled by state passing: a method takes the state and the inputs the
  environment decides (the clock, the answer to a confirmation dialog, whether the
  write to storage succeeds) and returns what it showed and the new state. An event
  handler runs to completion before the next event. The calls that render the page
  (\<^verbatim>\<open>displayInventory\<close>, \<^verbatim>\<open>updateInventoryCount\<close>, \<^verbatim>\<open>showPage\<close>) do not touch the
  manager's fields and are left out, except for the filter of \<^verbatim>\<open>displayInventory\<close>,
  which is the search of the inventory. The messages are those of \<^verbatim>\<open>showError\<close> and
  \<^verbatim>\<open>showSuccess\<close>, in the order of the calls. Rendering is taken to return: where it
  throws in the source after the inventory has been changed and saved (an inventory
  with a \<^verbatim>\<open>null\<close> entry), the state of the model is the state of the source, and its
  messages are those that a rendering that returns would be followed by.
\<close>

datatype notice = Error string | Success string

text \<open>A handler either throws, leaving no message, or returns after showing its messages.\<close>

datatype result = Thrown | Done "notice list"

definition storageKey :: string where
  "storageKey = ''mobileInventory''"

record manager =
  inventory :: json
  isEditing :: bool
  editingId :: json
  localStorage :: "string \<rightharpoonup> string"

text \<open>
  \<^verbatim>\<open>loadInventory\<close>. \<^verbatim>\<open>JSON.parse\<close> belongs to the platform and is a parameter:
  \<open>None\<close> is a \<^verbatim>\<open>SyntaxError\<close>, which the handler turns into the empty array. An
  empty string is falsy and is not parsed at all.
\<close>

definition loadInventory :: "(string \<Rightarrow> json option) \<Rightarrow> (string \<rightharpoonup> string) \<Rightarrow> json" where
  "loadInventory parse store =
     (case store storageKey of
        None \<Rightarrow> JArr []
      | Some stored \<Rightarrow>
          if stored = [] then JArr []
          else (case parse stored of None \<Rightarrow> JArr [] | Some v \<Rightarrow> v))"

text \<open>The constructor: the loaded value becomes the inventory, edit mode is off.\<close>

definition constructor :: "(string \<Rightarrow> json option) \<Rightarrow> (string \<rightharpoonup> string) \<Rightarrow> manager" where
  "constructor parse store =
     \<lparr>inventory = loadInventory parse store, isEditing = False, editingId = JNull,
      localStorage = store\<rparr>"

text \<open>
  \<^verbatim>\<open>saveInventory\<close>. \<^verbatim>\<open>JSON.stringify\<close> is the platform's and a parameter; whether
  \<^verbatim>\<open>setItem\<close> throws (the quota is exceeded) is decided by the environment, the input
  \<open>write_ok\<close>. A failed write is reported and changes nothing.
\<close>

definition saveInventory :: "(json \<Rightarrow> string) \<Rightarrow> bool \<Rightarrow> manager \<Rightarrow> notice list \<times> manager" where
  "saveInventory stringify write_ok st =
     (if write_ok
      then ([], st\<lparr>localStorage := (localStorage st)(storageKey \<mapsto> stringify (inventory st))\<rparr>)
      else ([Error ''Failed to save data. Storage might be full.''], st))"

definition validateIMEI :: "string \<Rightarrow> bool" where
  "validateIMEI imei = (length imei = 15 \<and> list_all is_digit imei)"

text \<open>The callbacks \<^verbatim>\<open>mobile => mobile.imei === imei\<close> and \<^verbatim>\<open>m => m.id === id\<close>.
  The value compared with is a primitive (a string, a number, \<^verbatim>\<open>null\<close>, or for the
  IMEI \<^verbatim>\<open>undefined\<close>), for which strict equality is equality of values.\<close>

definition imei_is :: "json option \<Rightarrow> json \<Rightarrow> bool completion" where
  "imei_is imei mobile =
     (if mobile = JNull then Throws else Returns (get_prop ''imei'' mobile = imei))"

definition id_is :: "json \<Rightarrow> json \<Rightarrow> bool completion" where
  "id_is idv m = (if m = JNull then Throws else Returns (get_prop ''id'' m = Some idv))"

definition id_is_not :: "json \<Rightarrow> json \<Rightarrow> bool completion" where
  "id_is_not idv m = (if m = JNull then Throws else Returns (get_prop ''id'' m \<noteq> Some idv))"

text \<open>\<^verbatim>\<open>isDuplicateIMEI\<close>; a value that is not an array has no method \<^verbatim>\<open>some\<close>.\<close>

definition isDuplicateIMEI :: "json option \<Rightarrow> json \<Rightarrow> bool completion" where
  "isDuplicateIMEI imei items =
     (case items of JArr xs \<Rightarrow> some_js (imei_is imei) xs | _ \<Rightarrow> Throws)"

text \<open>A file chosen in the form: its size in bytes and the data URL the reader delivers
  (\<open>None\<close> when reading fails).\<close>

datatype photo = File nat "string option"

definition processImage :: "photo \<Rightarrow> string option" where
  "processImage f =
     (case f of File bytes dataUrl \<Rightarrow> if bytes > 5 * 1024 * 1024 then None else dataUrl)"

text \<open>\<^verbatim>\<open>addMobile\<close>: the object \<^verbatim>\<open>{id: Date.now(), ...mobileData}\<close> is pushed and the
  inventory saved.\<close>

definition addMobile ::
  "(json \<Rightarrow> string) \<Rightarrow> bool \<Rightarrow> int \<Rightarrow> (string \<times> json) list \<Rightarrow> manager \<Rightarrow> result \<times> manager" where
  "addMobile stringify write_ok now mobileData st =
     (case inventory st of
        JArr xs \<Rightarrow>
          (let mobile = JObj (spread [(''id'', JNum now)] mobileData);
               (ns, st') = saveInventory stringify write_ok (st\<lparr>inventory := JArr (xs @ [mobile])\<rparr>)
           in (Done ns, st'))
      | _ \<Rightarrow> (Thrown, st))"

text \<open>\<^verbatim>\<open>deleteMobile\<close>; \<open>confirmed\<close> is the answer to the confirmation dialog.\<close>

definition deleteMobile ::
  "(json \<Rightarrow> string) \<Rightarrow> bool \<Rightarrow> bool \<Rightarrow> json \<Rightarrow> manager \<Rightarrow> result \<times> manager" where
  "deleteMobile stringify write_ok confirmed idv st =
     (if confirmed then
        (case inventory st of
           JArr xs \<Rightarrow>
             (case filter_js (id_is_not idv) xs of
                Throws \<Rightarrow> (Thrown, st)
              | Returns ys \<Rightarrow>
                  (let (ns, st') = saveInventory stringify write_ok (st\<lparr>inventory := JArr ys\<rparr>)
                   in (Done (ns @ [Success ''Mobile deleted from inventory.'']), st')))
         | _ \<Rightarrow> (Thrown, st))
      else (Done [], st))"

text \<open>\<^verbatim>\<open>updateMobile\<close>: the element at the first index whose id matches is replaced by
  \<^verbatim>\<open>{...this.inventory[index], ...updatedData, id}\<close>.\<close>

definition updateMobile ::
  "(json \<Rightarrow> string) \<Rightarrow> bool \<Rightarrow> json \<Rightarrow> (string \<times> json) list \<Rightarrow> manager \<Rightarrow> result \<times> manager" where
  "updateMobile stringify write_ok idv updatedData st =
     (case inventory st of
        JArr xs \<Rightarrow>
          (case findIndex_js (id_is idv) xs of
             Throws \<Rightarrow> (Thrown, st)
           | Returns None \<Rightarrow> (Done [], st)
           | Returns (Some index) \<Rightarrow>
               (let merged = JObj (AList.update ''id'' idv
                                    (spread (own_props (xs ! index)) updatedData));
                    (ns, st') = saveInventory stringify write_ok
                                  (st\<lparr>inventory := JArr (xs[index := merged])\<rparr>)
                in (Done ns, st')))
      | _ \<Rightarrow> (Thrown, st))"

text \<open>\<^verbatim>\<open>markAsSold\<close>: \<^verbatim>\<open>find\<close> returns the first element whose id matches, and
  \<^verbatim>\<open>sold = true\<close> is set on it in place.\<close>

definition markAsSold ::
  "(json \<Rightarrow> string) \<Rightarrow> bool \<Rightarrow> bool \<Rightarrow> json \<Rightarrow> manager \<Rightarrow> result \<times> manager" where
  "markAsSold stringify write_ok confirmed idv st =
     (if confirmed then
        (case inventory st of
           JArr xs \<Rightarrow>
             (case findIndex_js (id_is idv) xs of
                Throws \<Rightarrow> (Thrown, st)
              | Returns None \<Rightarrow> (Done [], st)
              | Returns (Some k) \<Rightarrow>
                  (let (ns, st') = saveInventory stringify write_ok
                         (st\<lparr>inventory := JArr (xs[k := assign ''sold'' (JBool True) (xs ! k)])\<rparr>)
                   in (Done (ns @ [Success ''Mobile marked as sold!'']), st')))
         | _ \<Rightarrow> (Thrown, st))
      else (Done [], st))"

text \<open>\<^verbatim>\<open>editMobile\<close>, \<^verbatim>\<open>resetEditMode\<close> and \<^verbatim>\<open>cancelEdit\<close>, as far as they touch the
  manager's fields.\<close>

definition editMobile :: "json \<Rightarrow> manager \<Rightarrow> result \<times> manager" where
  "editMobile idv st =
     (case inventory st of
        JArr xs \<Rightarrow>
          (case findIndex_js (id_is idv) xs of
             Throws \<Rightarrow> (Thrown, st)
           | Returns None \<Rightarrow> (Done [], st)
           | Returns (Some k) \<Rightarrow> (Done [], st\<lparr>isEditing := True, editingId := idv\<rparr>))
      | _ \<Rightarrow> (Thrown, st))"

definition resetEditMode :: "manager \<Rightarrow> manager" where
  "resetEditMode st = st\<lparr>isEditing := False, editingId := JNull\<rparr>"

definition cancelEdit :: "manager \<Rightarrow> manager" where
  "cancelEdit st = resetEditMode st"

text \<open>The submitted form: \<^verbatim>\<open>formData.get\<close> gives \<^verbatim>\<open>null\<close> for a control that is not
  submitted, here \<open>None\<close>.\<close>

record form =
  brand_field :: "string option"
  model_field :: "string option"
  imei_field :: "string option"
  ram_field :: "string option"
  storage_field :: "string option"
  photo_field :: "photo option"

definition str_or_null :: "string option \<Rightarrow> json" where
  "str_or_null v = (case v of None \<Rightarrow> JNull | Some s \<Rightarrow> JStr s)"

text \<open>The image step of the handler: \<open>None\<close> when \<^verbatim>\<open>processImage\<close> rejects.\<close>

definition form_image :: "photo option \<Rightarrow> json option" where
  "form_image photoFile =
     (case photoFile of
        None \<Rightarrow> Some JNull
      | Some (File bytes dataUrl) \<Rightarrow>
          if bytes > 0
          then (case processImage (File bytes dataUrl) of
                  None \<Rightarrow> None
                | Some u \<Rightarrow> Some (JStr u))
          else Some JNull)"

text \<open>The object \<^verbatim>\<open>mobileData\<close> that the handler builds from the text fields
  \<open>b\<close>, \<open>m\<close> and \<open>i\<close> (brand, model, IMEI) and the two selections.\<close>

definition mobileData :: "string \<Rightarrow> string \<Rightarrow> string \<Rightarrow> form \<Rightarrow> (string \<times> json) list" where
  "mobileData b m i f =
     [(''brand'', JStr (trim b)), (''model'', JStr (trim m)), (''imei'', JStr (trim i)),
      (''ram'', str_or_null (ram_field f)), (''storage'', str_or_null (storage_field f))]"

text \<open>\<^verbatim>\<open>handleFormSubmit\<close>; \<open>now\<close> is the reading of \<^verbatim>\<open>Date.now()\<close>. Calling
  \<^verbatim>\<open>trim\<close> on \<^verbatim>\<open>null\<close> throws before anything else happens.\<close>

definition handleFormSubmit ::
  "(json \<Rightarrow> string) \<Rightarrow> bool \<Rightarrow> int \<Rightarrow> form \<Rightarrow> manager \<Rightarrow> result \<times> manager" where
  "handleFormSubmit stringify write_ok now f st =
     (case (brand_field f, model_field f, imei_field f) of
        (Some b, Some m, Some i) \<Rightarrow>
          if \<not> validateIMEI (trim i)
          then (Done [Error ''IMEI must be exactly 15 digits.''], st)
          else
            (case (if isEditing st then Returns False
                   else isDuplicateIMEI (Some (JStr (trim i))) (inventory st)) of
               Throws \<Rightarrow> (Thrown, st)
             | Returns True \<Rightarrow>
                 (Done [Error ''A mobile with this IMEI already exists in inventory.''], st)
             | Returns False \<Rightarrow>
                 (case form_image (photo_field f) of
                    None \<Rightarrow> (Done [Error ''Failed to process image. Please try again.''], st)
                  | Some img \<Rightarrow>
                      (let withImage = AList.update ''image'' img (mobileData b m i f)
                       in if isEditing st
                          then (case updateMobile stringify write_ok (editingId st) withImage st of
                                  (Thrown, st') \<Rightarrow> (Thrown, st')
                                | (Done ns, st') \<Rightarrow>
                                    (Done (ns @ [Success ''Mobile updated successfully!'']),
                                     resetEditMode st'))
                          else (case addMobile stringify write_ok now withImage st of
                                  (Thrown, st') \<Rightarrow> (Thrown, st')
                                | (Done ns, st') \<Rightarrow>
                                    (Done (ns @ [Success ''Mobile added to inventory successfully!'']),
                                     resetEditMode st')))))
      | _ \<Rightarrow> (Thrown, st))"

text \<open>\<^verbatim>\<open>generateTestData\<close>. \<open>clock k\<close> is the reading of the \<open>k\<close>-th call of
  \<^verbatim>\<open>Date.now()\<close>. The loop pushes every test mobile whose IMEI is not yet there; an
  exception leaves the array as it is at that moment, unsaved.\<close>

definition test_mobile ::
  "int \<Rightarrow> string \<Rightarrow> string \<Rightarrow> string \<Rightarrow> string \<Rightarrow> string \<Rightarrow> bool \<Rightarrow> json" where
  "test_mobile i brand model imei ram storage sold =
     JObj [(''id'', JNum i), (''brand'', JStr brand), (''model'', JStr model),
           (''imei'', JStr imei), (''ram'', JStr ram), (''storage'', JStr storage),
           (''image'', JNull), (''sold'', JBool sold)]"

definition testMobiles :: "(nat \<Rightarrow> int) \<Rightarrow> json list" where
  "testMobiles clock =
     [test_mobile (clock 1 + 1) ''Samsung'' ''Galaxy A54'' ''123456789012345'' ''8GB'' ''128GB'' False,
      test_mobile (clock 2 + 2) ''Apple'' ''iPhone 13'' ''234567890123456'' ''4GB'' ''128GB'' True,
      test_mobile (clock 3 + 3) ''Xiaomi'' ''Redmi Note 12'' ''345678901234567'' ''6GB'' ''128GB'' False,
      test_mobile (clock 4 + 4) ''OnePlus'' ''Nord CE 3'' ''456789012345678'' ''8GB'' ''128GB'' False,
      test_mobile (clock 5 + 5) ''Google'' ''Pixel 7a'' ''567890123456789'' ''8GB'' ''128GB'' True,
      test_mobile (clock 6 + 6) ''Samsung'' ''Galaxy S22'' ''678901234567890'' ''8GB'' ''256GB'' False,
      test_mobile (clock 7 + 7) ''Apple'' ''iPhone 12'' ''789012345678901'' ''4GB'' ''64GB'' False,
      test_mobile (clock 8 + 8) ''Realme'' ''GT Neo 3'' ''890123456789012'' ''8GB'' ''128GB'' True,
      test_mobile (clock 9 + 9) ''Vivo'' ''V27 Pro'' ''901234567890123'' ''8GB'' ''256GB'' False,
      test_mobile (clock 10 + 10) ''Oppo'' ''Reno 8'' ''012345678901234'' ''8GB'' ''128GB'' False,
      test_mobile (clock 11 + 11) ''Apple'' ''iPhone 14'' ''112345678901234'' ''6GB'' ''128GB'' True,
      test_mobile (clock 12 + 12) ''Samsung'' ''Galaxy A34'' ''212345678901234'' ''6GB'' ''128GB'' False,
      test_mobile (clock 13 + 13) ''Xiaomi'' ''Mi 11'' ''312345678901234'' ''8GB'' ''256GB'' False,
      test_mobile (clock 14 + 14) ''Motorola'' ''Edge 30'' ''412345678901234'' ''8GB'' ''128GB'' False,
      test_mobile (clock 15 + 15) ''Nothing'' ''Phone (2)'' ''512345678901234'' ''12GB'' ''256GB'' True]"

fun pushTestMobiles :: "json list \<Rightarrow> json list \<Rightarrow> bool \<times> json list" where
  "pushTestMobiles [] xs = (False, xs)"
| "pushTestMobiles (mobile # rest) xs =
     (case isDuplicateIMEI (get_prop ''imei'' mobile) (JArr xs) of
        Throws \<Rightarrow> (True, xs)
      | Returns True \<Rightarrow> pushTestMobiles rest xs
      | Returns False \<Rightarrow> pushTestMobiles rest (xs @ [mobile]))"

definition generateTestData ::
  "(json \<Rightarrow> string) \<Rightarrow> bool \<Rightarrow> bool \<Rightarrow> (nat \<Rightarrow> int) \<Rightarrow> manager \<Rightarrow> result \<times> manager" where
  "generateTestData stringify write_ok confirmed clock st =
     (if confirmed then
        (case inventory st of
           JArr xs \<Rightarrow>
             (case pushTestMobiles (testMobiles clock) xs of
                (True, ys) \<Rightarrow> (Thrown, st\<lparr>inventory := JArr ys\<rparr>)
              | (False, ys) \<Rightarrow>
                  (let (ns, st') = saveInventory stringify write_ok (st\<lparr>inventory := JArr ys\<rparr>)
                   in (Done (ns @ [Success ''Generated 15 test mobiles in inventory!'']), st')))
         | _ \<Rightarrow> (Thrown, st))
      else (Done [], st))"

text \<open>The filter of \<^verbatim>\<open>displayInventory\<close>, the search of the inventory by brand, model
  or IMEI. \<^verbatim>\<open>toLowerCase\<close> exists on strings only; \<^verbatim>\<open>includes\<close> on strings and arrays.\<close>

definition lower_of :: "json option \<Rightarrow> string completion" where
  "lower_of v = (case v of Some (JStr s) \<Rightarrow> Returns (toLowerCase s) | _ \<Rightarrow> Throws)"

definition includes_of :: "json option \<Rightarrow> string \<Rightarrow> bool completion" where
  "includes_of v t =
     (case v of
        Some (JStr s) \<Rightarrow> Returns (str_includes s t)
      | Some (JArr vs) \<Rightarrow> Returns (List.member vs (JStr t))
      | _ \<Rightarrow> Throws)"

definition matches :: "string \<Rightarrow> json \<Rightarrow> bool completion" where
  "matches searchTerm mobile =
     (case lower_of (get_prop ''brand'' mobile) of
        Throws \<Rightarrow> Throws
      | Returns b \<Rightarrow>
          if str_includes b searchTerm then Returns True
          else (case lower_of (get_prop ''model'' mobile) of
                  Throws \<Rightarrow> Throws
                | Returns m \<Rightarrow>
                    if str_includes m searchTerm then Returns True
                    else includes_of (get_prop ''imei'' mobile) searchTerm))"

definition searchInventory :: "string \<Rightarrow> json \<Rightarrow> json list completion" where
  "searchInventory input items =
     (let searchTerm = toLowerCase input
      in case items of
           JArr xs \<Rightarrow> if searchTerm = [] then Returns xs else filter_js (matches searchTerm) xs
         | _ \<Rightarrow> Throws)"

subsection \<open>Properties of an inventory\<close>


text \<open>A record is sold when its \<^verbatim>\<open>sold\<close> is \<^verbatim>\<open>true\<close>. The record \<open>m'\<close> keeps
  \<open>m\<close> when it has the same id and is sold if \<open>m\<close> is.\<close>

definition is_sold :: "json \<Rightarrow> bool" where
  "is_sold m = (get_prop ''sold'' m = Some (JBool True))"

definition keeps :: "json \<Rightarrow> json \<Rightarrow> bool" where
  "keeps m m' = (get_prop ''id'' m' = get_prop ''id'' m \<and> (if is_sold m then is_sold m' else True))"

subsection \<open>Sample data\<close>

text \<open>A manager with a given inventory and empty storage; a form with the three text
  fields given, 8GB and 128GB selected and no photo; and the record that adding such a
  form at time \<open>t\<close> makes. The record A of the scenario in the specification is
  \<open>phone t ''Samsung'' ''Galaxy A54'' ''123456789012345''\<close>.\<close>

definition manager_with :: "json list \<Rightarrow> manager" where
  "manager_with xs =
     \<lparr>inventory = JArr xs, isEditing = False, editingId = JNull, localStorage = Map.empty\<rparr>"

definition phone_form :: "string \<Rightarrow> string \<Rightarrow> string \<Rightarrow> form" where
  "phone_form brand model imei =
     \<lparr>brand_field = Some brand, model_field = Some model, imei_field = Some imei,
      ram_field = Some ''8GB'', storage_field = Some ''128GB'', photo_field = None\<rparr>"

definition phone :: "int \<Rightarrow> string \<Rightarrow> string \<Rightarrow> string \<Rightarrow> json" where
  "phone t brand model imei =
     JObj [(''id'', JNum t), (''brand'', JStr brand), (''model'', JStr model),
           (''imei'', JStr imei), (''ram'', JStr ''8GB''), (''storage'', JStr ''128GB''),
           (''image'', JNull)]"

text \<open>Stand-ins for \<^verbatim>\<open>JSON.stringify\<close> and \<^verbatim>\<open>JSON.parse\<close> in the examples about
  storage: on the inventories made of the record A of the scenario (\<open>phoneA\<close>), the same
  record marked as sold (\<open>soldA\<close>) and a second record (\<open>phoneB\<close>), the parser reads back
  what the serialiser wrote.\<close>

definition phoneA :: json where
  "phoneA = phone 1 ''Samsung'' ''Galaxy A54'' ''123456789012345''"

definition soldA :: json where
  "soldA = assign ''sold'' (JBool True) phoneA"

definition phoneB :: json where
  "phoneB = phone 2 ''Apple'' ''iPhone 13'' ''234567890123456''"

definition sample_stringify :: "json \<Rightarrow> string" where
  "sample_stringify v =
     (if v = JArr [] then ''[]''
      else if v = JArr [phoneA] then ''[A]''
      else if v = JArr [soldA] then ''[A sold]''
      else if v = JArr [phoneA, phoneB] then ''[A,B]''
      else ''null'')"

definition sample_parse :: "string \<Rightarrow> json option" where
  "sample_parse s =
     (if s = ''[]'' then Some (JArr [])
      else if s = ''[A]'' then Some (JArr [phoneA])
      else if s = ''[A sold]'' then Some (JArr [soldA])
      else if s = ''[A,B]'' then Some (JArr [phoneA, phoneB])
      else if s = ''null'' then Some JNull
      else None)"

section \<open>The offline cache worker (service-worker.js)\<close>

record response =
  status :: nat
  rtype :: string
  body :: string

record request =
  url :: string
  destination :: string

text \<open>A cache maps request URLs to responses; the cache storage maps generation names
  to caches, in the order of creation.\<close>

type_synonym cache = "(string \<times> response) list"
type_synonym cacheStorage = "(string \<times> cache) list"

definition CACHE_NAME :: string where
  "CACHE_NAME = ''mobile-inventory-v1''"

text \<open>\<^verbatim>\<open>caches.match\<close>: the first generation that holds the URL answers.\<close>

fun caches_match :: "string \<Rightarrow> cacheStorage \<Rightarrow> response option" where
  "caches_match u [] = None"
| "caches_match u ((n, c) # cs) =
     (case map_of c u of Some r \<Rightarrow> Some r | None \<Rightarrow> caches_match u cs)"

text \<open>\<^verbatim>\<open>caches.open(name)\<close> followed by \<^verbatim>\<open>cache.put\<close>: the generation is created when
  it does not exist.\<close>

definition cache_put :: "string \<Rightarrow> string \<Rightarrow> response \<Rightarrow> cacheStorage \<Rightarrow> cacheStorage" where
  "cache_put n u r cs =
     (case map_of cs n of
        None \<Rightarrow> cs @ [(n, [(u, r)])]
      | Some c \<Rightarrow> AList.update n (AList.update u r c) cs)"

text \<open>The network: \<^verbatim>\<open>fetch\<close> rejects or resolves with a response.\<close>

datatype net_result = NetThrows | NetResponse response

text \<open>The fetch handler: the response handed to \<^verbatim>\<open>respondWith\<close> (\<open>None\<close> is
  \<^verbatim>\<open>undefined\<close>) and the cache storage once the detached \<^verbatim>\<open>cache.put\<close> has run.\<close>

definition fetch_handler ::
  "(request \<Rightarrow> net_result) \<Rightarrow> request \<Rightarrow> cacheStorage \<Rightarrow> response option \<times> cacheStorage" where
  "fetch_handler net req cs =
     (case caches_match (url req) cs of
        Some cached \<Rightarrow> (Some cached, cs)
      | None \<Rightarrow>
          (case net req of
             NetResponse r \<Rightarrow>
               if status r \<noteq> 200 \<or> rtype r \<noteq> ''basic'' then (Some r, cs)
               else (Some r, cache_put CACHE_NAME (url req) r cs)
           | NetThrows \<Rightarrow>
               if destination req = ''document'' then (caches_match ''/index.html'' cs, cs)
               else (None, cs)))"

text \<open>The activate handler: every generation name is visited, and the generations named
  otherwise than \<open>CACHE_NAME\<close> are deleted.\<close>

definition activate :: "cacheStorage \<Rightarrow> cacheStorage" where
  "activate cs =
     fold (\<lambda>cacheName acc. if cacheName \<noteq> CACHE_NAME then AList.delete cacheName acc else acc)
       (map fst cs) cs"

section \<open>Lemmas about the cache worker\<close>

lemma fold_delete_others:
  "fold (\<lambda>cacheName acc. if cacheName \<noteq> c then AList.delete cacheName acc else acc) ns acc
     = filter (\<lambda>e. fst e = c \<or> fst e \<notin> set ns) acc"
proof (induction ns arbitrary: acc)
  case Nil
  then show ?case by simp
next
  case (Cons n ns)
  show ?case
    by (auto simp: Cons.IH AList.delete_eq case_prod_unfold intro!: filter_cong)
qed

lemma activate_filter: "activate cs = filter (\<lambda>e. fst e = CACHE_NAME) cs"
  unfolding activate_def fold_delete_others
  by (rule filter_cong) auto

lemma length_filter_key_le_one:
  "distinct (map fst cs) \<Longrightarrow> length (filter (\<lambda>e. fst e = c) cs) \<le> 1"
  by (induction cs) (auto simp: filter_empty_conv image_iff)

section \<open>The claims about the cache worker\<close>

text \<open>
  C6. The activate step deletes exactly the cache generations whose name differs from
  the current version tag: what remains of the cache storage are the entries named
  \<open>CACHE_NAME\<close>, a name is there afterwards if and only if it was there before and is
  \<open>CACHE_NAME\<close>, the surviving generation keeps its content, and, names of generations
  being distinct, at most one generation is left.
\<close>

theorem activate_keeps_current_only:
  "activate cs = filter (\<lambda>e. fst e = CACHE_NAME) cs
   \<and> (n \<in> set (map fst (activate cs))) = (n \<in> set (map fst cs) \<and> n = CACHE_NAME)
   \<and> map_of (activate cs) CACHE_NAME = map_of cs CACHE_NAME
   \<and> (distinct (map fst cs) \<longrightarrow> length (activate cs) \<le> 1)"
proof -
  have a: "activate cs = filter (\<lambda>e. fst e = CACHE_NAME) cs"
    by (rule activate_filter)
  have b: "(n \<in> set (map fst (activate cs))) = (n \<in> set (map fst cs) \<and> n = CACHE_NAME)"
    unfolding a by force
  have c: "map_of (activate cs) CACHE_NAME = map_of cs CACHE_NAME"
    unfolding a by (induction cs) auto
  have d: "distinct (map fst cs) \<longrightarrow> length (activate cs) \<le> 1"
    unfolding a using length_filter_key_le_one [of cs CACHE_NAME] by simp
  show ?thesis using a b c d by simp
qed

theorem activate_keeps_current_only_witness:
  "distinct (map fst [(''mobile-inventory-v0'', [(''/'', \<lparr>status = 200, rtype = ''basic'', body = ''old''\<rparr>)]),
                     (CACHE_NAME, [(''/'', \<lparr>status = 200, rtype = ''basic'', body = ''new''\<rparr>)])])
   \<and> activate [(''mobile-inventory-v0'', [(''/'', \<lparr>status = 200, rtype = ''basic'', body = ''old''\<rparr>)]),
               (CACHE_NAME, [(''/'', \<lparr>status = 200, rtype = ''basic'', body = ''new''\<rparr>)])]
      = [(CACHE_NAME, [(''/'', \<lparr>status = 200, rtype = ''basic'', body = ''new''\<rparr>)])]
   \<and> length (activate [(''mobile-inventory-v0'', [(''/'', \<lparr>status = 200, rtype = ''basic'', body = ''old''\<rparr>)]),
               (CACHE_NAME, [(''/'', \<lparr>status = 200, rtype = ''basic'', body = ''new''\<rparr>)])]) \<le> 1"
  using activate_keeps_current_only
          [of "[(''mobile-inventory-v0'', [(''/'', \<lparr>status = 200, rtype = ''basic'', body = ''old''\<rparr>)]),
                (CACHE_NAME, [(''/'', \<lparr>status = 200, rtype = ''basic'', body = ''new''\<rparr>)])]"
              "CACHE_NAME"]
  by (simp add: CACHE_NAME_def)

text \<open>
  C5, as the code has it. When the cache lookup misses: if the network call throws and
  the request is a document navigation, the handler answers with whatever the cache
  holds under \<^verbatim>\<open>/index.html\<close>, the shell document when it is cached; if the network
  call throws and the request is not for a document, the handler gives no response;
  and if the network answers with a response that is not valid (its status is not 200
  or its type is not \<^verbatim>\<open>basic\<close>), the handler returns that very response, whatever the
  destination, and stores nothing.
\<close>

theorem fetch_fallback_on_network_failure:
  assumes "caches_match (url req) cs = None"
  shows "(net req = NetThrows \<and> destination req = ''document''
            \<longrightarrow> fetch_handler net req cs = (caches_match ''/index.html'' cs, cs))
       \<and> (net req = NetThrows \<and> destination req \<noteq> ''document''
            \<longrightarrow> fetch_handler net req cs = (None, cs))
       \<and> (net req = NetResponse r \<and> (status r \<noteq> 200 \<or> rtype r \<noteq> ''basic'')
            \<longrightarrow> fetch_handler net req cs = (Some r, cs))"
  using assms by (simp add: fetch_handler_def)

theorem fetch_fallback_on_network_failure_witness:
  "fetch_handler (\<lambda>q. NetThrows) \<lparr>url = ''/page'', destination = ''document''\<rparr>
     [(CACHE_NAME, [(''/index.html'', \<lparr>status = 200, rtype = ''basic'', body = ''shell''\<rparr>)])]
   = (Some \<lparr>status = 200, rtype = ''basic'', body = ''shell''\<rparr>,
      [(CACHE_NAME, [(''/index.html'', \<lparr>status = 200, rtype = ''basic'', body = ''shell''\<rparr>)])])
   \<and> fetch_handler (\<lambda>q. NetThrows) \<lparr>url = ''/logo.png'', destination = ''image''\<rparr>
     [(CACHE_NAME, [(''/index.html'', \<lparr>status = 200, rtype = ''basic'', body = ''shell''\<rparr>)])]
   = (None, [(CACHE_NAME, [(''/index.html'', \<lparr>status = 200, rtype = ''basic'', body = ''shell''\<rparr>)])])
   \<and> fetch_handler (\<lambda>q. NetResponse \<lparr>status = 404, rtype = ''basic'', body = ''Not Found''\<rparr>)
       \<lparr>url = ''/page'', destination = ''document''\<rparr>
     [(CACHE_NAME, [(''/index.html'', \<lparr>status = 200, rtype = ''basic'', body = ''shell''\<rparr>)])]
   = (Some \<lparr>status = 404, rtype = ''basic'', body = ''Not Found''\<rparr>,
      [(CACHE_NAME, [(''/index.html'', \<lparr>status = 200, rtype = ''basic'', body = ''shell''\<rparr>)])])"
  using fetch_fallback_on_network_failure
          [of "\<lparr>url = ''/page'', destination = ''document''\<rparr>"
              "[(CACHE_NAME, [(''/index.html'', \<lparr>status = 200, rtype = ''basic'', body = ''shell''\<rparr>)])]"
              "\<lambda>q. NetThrows"]
        fetch_fallback_on_network_failure
          [of "\<lparr>url = ''/logo.png'', destination = ''image''\<rparr>"
              "[(CACHE_NAME, [(''/index.html'', \<lparr>status = 200, rtype = ''basic'', body = ''shell''\<rparr>)])]"
              "\<lambda>q. NetThrows"]
        fetch_fallback_on_network_failure
          [of "\<lparr>url = ''/page'', destination = ''document''\<rparr>"
              "[(CACHE_NAME, [(''/index.html'', \<lparr>status = 200, rtype = ''basic'', body = ''shell''\<rparr>)])]"
              "\<lambda>q. NetResponse \<lparr>status = 404, rtype = ''basic'', body = ''Not Found''\<rparr>"
              "\<lparr>status = 404, rtype = ''basic'', body = ''Not Found''\<rparr>"]
  by simp

text \<open>
  C5 as the specification states it fails: a document navigation that misses the cache
  and gets the answer 404 from the network is answered with that 404 response, not with
  the cached shell document.
\<close>

theorem fetch_invalid_response_counterexample:
  "caches_match ''/page''
       [(CACHE_NAME, [(''/index.html'', \<lparr>status = 200, rtype = ''basic'', body = ''shell''\<rparr>)])] = None
   \<and> caches_match ''/index.html''
       [(CACHE_NAME, [(''/index.html'', \<lparr>status = 200, rtype = ''basic'', body = ''shell''\<rparr>)])]
      = Some \<lparr>status = 200, rtype = ''basic'', body = ''shell''\<rparr>
   \<and> fst (fetch_handler (\<lambda>q. NetResponse \<lparr>status = 404, rtype = ''basic'', body = ''Not Found''\<rparr>)
        \<lparr>url = ''/page'', destination = ''document''\<rparr>
        [(CACHE_NAME, [(''/index.html'', \<lparr>status = 200, rtype = ''basic'', body = ''shell''\<rparr>)])])
      = Some \<lparr>status = 404, rtype = ''basic'', body = ''Not Found''\<rparr>
   \<and> fst (fetch_handler (\<lambda>q. NetResponse \<lparr>status = 404, rtype = ''basic'', body = ''Not Found''\<rparr>)
        \<lparr>url = ''/page'', destination = ''document''\<rparr>
        [(CACHE_NAME, [(''/index.html'', \<lparr>status = 200, rtype = ''basic'', body = ''shell''\<rparr>)])])
      \<noteq> caches_match ''/index.html''
          [(CACHE_NAME, [(''/index.html'', \<lparr>status = 200, rtype = ''basic'', body = ''shell''\<rparr>)])]"
  by (simp add: fetch_handler_def)

section \<open>The claim about loading\<close>

text \<open>
  C10. Whatever the stored text parses to becomes the inventory, with no check of its
  shape: for every stored text that the platform's parser accepts (it rejects the
  empty text), \<open>loadInventory\<close> returns the parsed value itself, be it a number or a
  plain object, and the constructor makes it the inventory of the manager.
\<close>

theorem loadInventory_returns_parsed_value:
  assumes "parse [] = None" and "store storageKey = Some blob" and "parse blob = Some v"
  shows "loadInventory parse store = v \<and> inventory (constructor parse store) = v"
proof -
  from assms have "blob \<noteq> []" by auto
  with assms show ?thesis by (simp add: loadInventory_def constructor_def)
qed

theorem loadInventory_returns_parsed_value_witness:
  "loadInventory (\<lambda>s. if s = ''5'' then Some (JNum 5) else if s = ''{}'' then Some (JObj []) else None)
      [storageKey \<mapsto> ''5''] = JNum 5
   \<and> inventory (constructor
        (\<lambda>s. if s = ''5'' then Some (JNum 5) else if s = ''{}'' then Some (JObj []) else None)
        [storageKey \<mapsto> ''{}'']) = JObj []"
  using loadInventory_returns_parsed_value
          [of "\<lambda>s. if s = ''5'' then Some (JNum 5) else if s = ''{}'' then Some (JObj []) else None"
              "[storageKey \<mapsto> ''5'']" "''5''" "JNum 5"]
        loadInventory_returns_parsed_value
          [of "\<lambda>s. if s = ''5'' then Some (JNum 5) else if s = ''{}'' then Some (JObj []) else None"
              "[storageKey \<mapsto> ''{}'']" "''{}''" "JObj []"]
  by simp

section \<open>Lemmas about the inventory manager\<close>

subsection \<open>Finding and updating records\<close>

lemma findIndex_js_Some:
  "findIndex_js p xs = Returns (Some k) \<Longrightarrow> k < length xs \<and> p (xs ! k) = Returns True"
proof (induction xs arbitrary: k)
  case Nil
  then show ?case by simp
next
  case (Cons x xs)
  then show ?case
    by (cases k) (auto split: completion.splits bool.splits option.splits)
qed

lemma findIndex_js_absent:
  "\<forall>x\<in>set xs. p x \<noteq> Returns True \<Longrightarrow> findIndex_js p xs = Returns (Some k) \<Longrightarrow> False"
proof -
  assume a: "\<forall>x\<in>set xs. p x \<noteq> Returns True" and b: "findIndex_js p xs = Returns (Some k)"
  from findIndex_js_Some [OF b] have "k < length xs" and "p (xs ! k) = Returns True" by auto
  with a show False using nth_mem by blast
qed

lemma findIndex_js_update:
  "findIndex_js p xs = Returns (Some k) \<Longrightarrow> p y = Returns True
     \<Longrightarrow> findIndex_js p (xs[k := y]) = Returns (Some k)"
proof (induction xs arbitrary: k)
  case Nil
  then show ?case by simp
next
  case (Cons x xs)
  then show ?case
    by (cases k) (auto split: completion.splits bool.splits option.splits)
qed

lemma id_is_True: "id_is idv m = Returns True \<Longrightarrow> get_prop ''id'' m = Some idv"
  by (auto simp: id_is_def split: if_splits)

lemma get_prop_Some_obj: "get_prop k m = Some v \<Longrightarrow> \<exists>ps. m = JObj ps"
  by (cases m) auto

lemma map_of_spread_other:
  "k \<notin> fst ` set src \<Longrightarrow> map_of (spread target src) k = map_of target k"
  unfolding spread_def
  by (induction src arbitrary: target) (auto simp: AList.update_conv')

lemma saveInventory_inventory [simp]:
  "inventory (snd (saveInventory stringify write_ok st)) = inventory st"
  by (simp add: saveInventory_def)

lemma updateMobile_found:
  assumes "inventory st = JArr xs" and "findIndex_js (id_is idv) xs = Returns (Some k)"
  shows "inventory (snd (updateMobile stringify write_ok idv updatedData st))
           = JArr (xs[k := JObj (AList.update ''id'' idv (spread (own_props (xs ! k)) updatedData))])"
  using assms by (simp add: updateMobile_def Let_def case_prod_unfold)

subsection \<open>Deleting\<close>

lemma filter_js_id_is_not:
  "JNull \<notin> set xs \<Longrightarrow>
     filter_js (id_is_not idv) xs = Returns (filter (\<lambda>m. get_prop ''id'' m \<noteq> Some idv) xs)"
  by (induction xs) (auto simp: id_is_not_def)

lemma filter_js_id_is_not_null:
  "JNull \<in> set xs \<Longrightarrow> filter_js (id_is_not idv) xs = Throws"
  by (induction xs) (auto simp: id_is_not_def split: completion.splits)

lemma findIndex_js_none:
  "\<forall>x\<in>set xs. p x = Returns False \<Longrightarrow> findIndex_js p xs = Returns None"
  by (induction xs) auto

lemma length_filter_distinct_key:
  "distinct (map f xs) \<Longrightarrow> x \<in> set xs \<Longrightarrow> length (filter (\<lambda>m. f m = f x) xs) = 1"
proof (induction xs)
  case Nil
  then show ?case by simp
next
  case (Cons a xs)
  show ?case
  proof (cases "f a = f x")
    case True
    with Cons.prems have "\<forall>m\<in>set xs. f m \<noteq> f x" by (auto simp: image_iff)
    then have "filter (\<lambda>m. f m = f x) xs = []" by (simp add: filter_empty_conv)
    with True show ?thesis by simp
  next
    case False
    with Cons show ?thesis by auto
  qed
qed

subsection \<open>Marking as sold\<close>

lemma id_is_assign:
  "id_is idv m = Returns True \<Longrightarrow> k \<noteq> ''id'' \<Longrightarrow> id_is idv (assign k v m) = Returns True"
  by (cases m) (auto simp: id_is_def AList.update_conv' split: if_splits)

lemma assign_twice: "assign k v (assign k v m) = assign k v m"
  by (cases m) auto

lemma markAsSold_inventory:
  "inventory (snd (markAsSold stringify write_ok True idv st)) =
     (case inventory st of
        JArr xs \<Rightarrow>
          (case findIndex_js (id_is idv) xs of
             Returns (Some k) \<Rightarrow> JArr (xs[k := assign ''sold'' (JBool True) (xs ! k)])
           | _ \<Rightarrow> inventory st)
      | _ \<Rightarrow> inventory st)"
  by (simp add: markAsSold_def Let_def case_prod_unfold
           split: json.splits completion.splits option.splits)

lemma markAsSold_twice_inventory:
  "inventory (snd (markAsSold stringify w2 True idv (snd (markAsSold stringify w1 True idv st))))
     = inventory (snd (markAsSold stringify w1 True idv st))"
proof (cases "inventory st")
  case (JArr xs)
  show ?thesis
  proof (cases "findIndex_js (id_is idv) xs")
    case Throws
    then show ?thesis using JArr by (simp add: markAsSold_inventory)
  next
    case (Returns r)
    show ?thesis
    proof (cases r)
      case None
      then show ?thesis using JArr Returns by (simp add: markAsSold_inventory)
    next
      case (Some k)
      let ?m = "assign ''sold'' (JBool True) (xs ! k)"
      have found: "findIndex_js (id_is idv) xs = Returns (Some k)" using Returns Some by simp
      have k: "k < length xs" and hit: "id_is idv (xs ! k) = Returns True"
        using findIndex_js_Some [OF found] by auto
      have hit': "id_is idv ?m = Returns True" by (rule id_is_assign [OF hit]) simp
      have again: "findIndex_js (id_is idv) (xs[k := ?m]) = Returns (Some k)"
        by (rule findIndex_js_update [OF found hit'])
      have one: "inventory (snd (markAsSold stringify w1 True idv st)) = JArr (xs[k := ?m])"
        using JArr found by (simp add: markAsSold_inventory)
      show ?thesis
        unfolding markAsSold_inventory [of stringify w2] one
        using again k by (simp add: assign_twice)
    qed
  qed
qed (simp_all add: markAsSold_inventory)

lemma markAsSold_state:
  "snd (markAsSold stringify write_ok True idv st) =
     (case inventory st of
        JArr xs \<Rightarrow>
          (case findIndex_js (id_is idv) xs of
             Returns (Some k) \<Rightarrow>
               snd (saveInventory stringify write_ok
                      (st\<lparr>inventory := JArr (xs[k := assign ''sold'' (JBool True) (xs ! k)])\<rparr>))
           | _ \<Rightarrow> st)
      | _ \<Rightarrow> st)"
  by (simp add: markAsSold_def Let_def case_prod_unfold
           split: json.splits completion.splits option.splits)

lemma saveInventory_twice:
  "snd (saveInventory stringify w (snd (saveInventory stringify w st)))
     = snd (saveInventory stringify w st)"
  by (simp add: saveInventory_def)

lemma markAsSold_twice_state:
  "snd (markAsSold stringify w True idv (snd (markAsSold stringify w True idv st)))
     = snd (markAsSold stringify w True idv st)"
proof (cases "inventory st")
  case (JArr xs)
  show ?thesis
  proof (cases "findIndex_js (id_is idv) xs")
    case Throws
    then show ?thesis using JArr by (simp add: markAsSold_state)
  next
    case (Returns r)
    show ?thesis
    proof (cases r)
      case None
      then show ?thesis using JArr Returns by (simp add: markAsSold_state)
    next
      case (Some k)
      let ?m = "assign ''sold'' (JBool True) (xs ! k)"
      let ?st1 = "snd (saveInventory stringify w (st\<lparr>inventory := JArr (xs[k := ?m])\<rparr>))"
      have found: "findIndex_js (id_is idv) xs = Returns (Some k)" using Returns Some by simp
      have k: "k < length xs" and hit: "id_is idv (xs ! k) = Returns True"
        using findIndex_js_Some [OF found] by auto
      have hit': "id_is idv ?m = Returns True" by (rule id_is_assign [OF hit]) simp
      have again: "findIndex_js (id_is idv) (xs[k := ?m]) = Returns (Some k)"
        by (rule findIndex_js_update [OF found hit'])
      have one: "snd (markAsSold stringify w True idv st) = ?st1"
        using JArr found by (simp add: markAsSold_state)
      have inv1: "inventory ?st1 = JArr (xs[k := ?m])" by simp
      have "snd (markAsSold stringify w True idv ?st1)
              = snd (saveInventory stringify w (?st1\<lparr>inventory := JArr (xs[k := ?m])\<rparr>))"
        using again k by (simp add: markAsSold_state [of stringify w idv ?st1] assign_twice)
      also have "?st1\<lparr>inventory := JArr (xs[k := ?m])\<rparr> = ?st1"
        by (simp add: saveInventory_def)
      also have "snd (saveInventory stringify w ?st1) = ?st1"
        by (rule saveInventory_twice)
      finally show ?thesis unfolding one .
    qed
  qed
qed (simp_all add: markAsSold_state)

subsection \<open>The form handler\<close>

lemma handleFormSubmit_invalid:
  assumes "brand_field f = Some b" "model_field f = Some m" "imei_field f = Some i"
    and "\<not> validateIMEI (trim i)"
  shows "handleFormSubmit stringify write_ok now f st
           = (Done [Error ''IMEI must be exactly 15 digits.''], st)"
  using assms by (simp add: handleFormSubmit_def)

lemma handleFormSubmit_duplicate:
  assumes "brand_field f = Some b" "model_field f = Some m" "imei_field f = Some i"
    and "validateIMEI (trim i)" and "\<not> isEditing st"
    and "isDuplicateIMEI (Some (JStr (trim i))) (inventory st) = Returns True"
  shows "handleFormSubmit stringify write_ok now f st
           = (Done [Error ''A mobile with this IMEI already exists in inventory.''], st)"
  using assms by (simp add: handleFormSubmit_def)

lemma addMobile_array:
  "inventory st = JArr xs \<Longrightarrow>
     addMobile stringify write_ok now d st =
       (Done (fst (saveInventory stringify write_ok
                     (st\<lparr>inventory := JArr (xs @ [JObj (spread [(''id'', JNum now)] d)])\<rparr>))),
        snd (saveInventory stringify write_ok
               (st\<lparr>inventory := JArr (xs @ [JObj (spread [(''id'', JNum now)] d)])\<rparr>)))"
  by (simp add: addMobile_def Let_def case_prod_unfold)

lemma handleFormSubmit_add:
  assumes "brand_field f = Some b" "model_field f = Some m" "imei_field f = Some i"
    and "validateIMEI (trim i)" and "\<not> isEditing st" and "inventory st = JArr xs"
    and "some_js (imei_is (Some (JStr (trim i)))) xs = Returns False"
    and "form_image (photo_field f) = Some img"
  shows "handleFormSubmit stringify write_ok now f st =
           (Done (fst (saveInventory stringify write_ok
                    (st\<lparr>inventory := JArr (xs @ [JObj (spread [(''id'', JNum now)]
                          (AList.update ''image'' img (mobileData b m i f)))])\<rparr>))
                  @ [Success ''Mobile added to inventory successfully!'']),
            resetEditMode (snd (saveInventory stringify write_ok
                    (st\<lparr>inventory := JArr (xs @ [JObj (spread [(''id'', JNum now)]
                          (AList.update ''image'' img (mobileData b m i f)))])\<rparr>))))"
  using assms by (simp add: handleFormSubmit_def isDuplicateIMEI_def addMobile_array Let_def)

lemma resetEditMode_inventory [simp]: "inventory (resetEditMode st) = inventory st"
  by (simp add: resetEditMode_def)

lemma handleFormSubmit_inventory_cases:
  "inventory (snd (handleFormSubmit stringify write_ok now f st)) = inventory st
   \<or> (\<exists>b m i img xs. \<not> isEditing st \<and> inventory st = JArr xs
          \<and> some_js (imei_is (Some (JStr (trim i)))) xs = Returns False
          \<and> inventory (snd (handleFormSubmit stringify write_ok now f st))
               = JArr (xs @ [JObj (spread [(''id'', JNum now)]
                          (AList.update ''image'' img (mobileData b m i f)))]))
   \<or> (\<exists>b m i img. isEditing st \<and> imei_field f = Some i
          \<and> inventory (snd (handleFormSubmit stringify write_ok now f st))
               = inventory (snd (updateMobile stringify write_ok (editingId st)
                                   (AList.update ''image'' img (mobileData b m i f)) st)))"
proof (cases "brand_field f")
  case None
  then show ?thesis by (simp add: handleFormSubmit_def)
next
  case b: (Some b)
  show ?thesis
  proof (cases "model_field f")
    case None
    then show ?thesis using b by (simp add: handleFormSubmit_def)
  next
    case m: (Some m)
    show ?thesis
    proof (cases "imei_field f")
      case None
      then show ?thesis using b m by (simp add: handleFormSubmit_def)
    next
      case i: (Some i)
      show ?thesis
      proof (cases "validateIMEI (trim i)")
        case False
        then show ?thesis using handleFormSubmit_invalid [OF b m i] by simp
      next
        case valid: True
        show ?thesis
        proof (cases "form_image (photo_field f)")
          case None
          then show ?thesis using b m i valid
            by (simp add: handleFormSubmit_def split: completion.splits bool.splits)
        next
          case img: (Some img)
          show ?thesis
          proof (cases "isEditing st")
            case True
            have "inventory (snd (handleFormSubmit stringify write_ok now f st))
               = inventory (snd (updateMobile stringify write_ok (editingId st)
                                   (AList.update ''image'' img (mobileData b m i f)) st))"
              using b m i valid img True
              by (simp add: handleFormSubmit_def Let_def split: prod.splits result.splits)
            then show ?thesis using True i by blast
          next
            case False
            show ?thesis
            proof (cases "inventory st")
              case (JArr xs)
              show ?thesis
              proof (cases "some_js (imei_is (Some (JStr (trim i)))) xs")
                case Throws
                then show ?thesis using b m i valid img False JArr
                  by (simp add: handleFormSubmit_def isDuplicateIMEI_def)
              next
                case (Returns d)
                show ?thesis
                proof (cases d)
                  case True
                  then show ?thesis using b m i valid img False JArr Returns
                    by (simp add: handleFormSubmit_def isDuplicateIMEI_def)
                next
                  case no: False
                  have "inventory (snd (handleFormSubmit stringify write_ok now f st))
                          = JArr (xs @ [JObj (spread [(''id'', JNum now)]
                                (AList.update ''image'' img (mobileData b m i f)))])"
                    using handleFormSubmit_add [OF b m i valid False JArr _ img] Returns no
                    by simp
                  moreover have "some_js (imei_is (Some (JStr (trim i)))) xs = Returns False"
                    using Returns no by simp
                  ultimately show ?thesis using False JArr by blast
                qed
              qed
            qed (use b m i valid img False in
                  \<open>simp_all add: handleFormSubmit_def isDuplicateIMEI_def\<close>)
          qed
        qed
      qed
    qed
  qed
qed

subsection \<open>Sold records stay sold\<close>

lemma get_prop_assign_other: "k' \<noteq> k \<Longrightarrow> get_prop k' (assign k v m) = get_prop k' m"
  by (cases m) (auto simp: AList.update_conv')

lemma get_prop_assign_same: "get_prop k m = Some x \<Longrightarrow> get_prop k (assign k v m) = Some v"
  by (cases m) (auto simp: AList.update_conv')

lemma keeps_refl: "keeps m m"
  by (simp add: keeps_def)

lemma keeps_assign_sold: "keeps m (assign ''sold'' (JBool True) m)"
  by (auto simp: keeps_def is_sold_def get_prop_assign_other get_prop_assign_same)

lemma keeps_merged:
  assumes "get_prop ''id'' m = Some idv" and "''sold'' \<notin> fst ` set d"
  shows "keeps m (JObj (AList.update ''id'' idv (spread (own_props m) d)))"
proof -
  from assms(1) obtain ps where m: "m = JObj ps" using get_prop_Some_obj by blast
  show ?thesis using assms
    by (simp add: m keeps_def is_sold_def AList.update_conv' map_of_spread_other)
qed

lemma updateMobile_keeps:
  assumes "inventory st = JArr xs" and "''sold'' \<notin> fst ` set d"
  shows "\<exists>ys. inventory (snd (updateMobile stringify write_ok idv d st)) = JArr ys
            \<and> length ys = length xs \<and> (\<forall>j<length xs. keeps (xs ! j) (ys ! j))"
proof (cases "findIndex_js (id_is idv) xs")
  case Throws
  then show ?thesis using assms by (simp add: updateMobile_def keeps_refl)
next
  case (Returns r)
  show ?thesis
  proof (cases r)
    case None
    then show ?thesis using Returns assms by (simp add: updateMobile_def keeps_refl)
  next
    case (Some k)
    let ?m = "JObj (AList.update ''id'' idv (spread (own_props (xs ! k)) d))"
    have found: "findIndex_js (id_is idv) xs = Returns (Some k)" using Returns Some by simp
    have k: "k < length xs" and old: "get_prop ''id'' (xs ! k) = Some idv"
      using findIndex_js_Some [OF found] id_is_True by auto
    have inv': "inventory (snd (updateMobile stringify write_ok idv d st)) = JArr (xs[k := ?m])"
      by (rule updateMobile_found [OF assms(1) found])
    have "keeps (xs ! j) (xs[k := ?m] ! j)" if "j < length xs" for j
      using that keeps_merged [OF old assms(2)] by (cases "j = k") (simp_all add: keeps_refl)
    then show ?thesis using inv' by simp
  qed
qed

lemma markAsSold_keeps:
  assumes "inventory st = JArr xs"
  shows "\<exists>ys. inventory (snd (markAsSold stringify write_ok c idv st)) = JArr ys
            \<and> length ys = length xs \<and> (\<forall>j<length xs. keeps (xs ! j) (ys ! j))"
proof (cases c)
  case False
  then show ?thesis using assms by (simp add: markAsSold_def keeps_refl)
next
  case True
  show ?thesis
  proof (cases "findIndex_js (id_is idv) xs")
    case Throws
    then show ?thesis using assms True by (simp add: markAsSold_inventory keeps_refl)
  next
    case (Returns r)
    show ?thesis
    proof (cases r)
      case None
      then show ?thesis using Returns assms True by (simp add: markAsSold_inventory keeps_refl)
    next
      case (Some k)
      have "keeps (xs ! j) (xs[k := assign ''sold'' (JBool True) (xs ! k)] ! j)"
        if "j < length xs" for j
        using that keeps_assign_sold by (cases "j = k") (simp_all add: keeps_refl)
      then show ?thesis using Returns Some assms True by (simp add: markAsSold_inventory)
    qed
  qed
qed

lemma deleteMobile_inventory:
  assumes "inventory st = JArr xs"
  shows "inventory (snd (deleteMobile stringify write_ok c idv st)) = JArr xs
       \<or> inventory (snd (deleteMobile stringify write_ok c idv st))
            = JArr (filter (\<lambda>m. get_prop ''id'' m \<noteq> Some idv) xs)"
proof (cases "c \<and> JNull \<notin> set xs")
  case True
  then show ?thesis using assms
    by (simp add: deleteMobile_def filter_js_id_is_not case_prod_unfold Let_def)
next
  case False
  then show ?thesis using assms
    by (auto simp: deleteMobile_def filter_js_id_is_not_null)
qed

lemma pushTestMobiles_appends: "\<exists>zs. snd (pushTestMobiles ms xs) = xs @ zs"
proof (induction ms arbitrary: xs)
  case Nil
  then show ?case by simp
next
  case (Cons mobile rest)
  show ?case
  proof (cases "isDuplicateIMEI (get_prop ''imei'' mobile) (JArr xs)")
    case Throws
    then show ?thesis by simp
  next
    case (Returns d)
    show ?thesis
    proof (cases d)
      case True
      then show ?thesis using Returns Cons.IH [of xs] by simp
    next
      case False
      from Cons.IH [of "xs @ [mobile]"] obtain zs
        where "snd (pushTestMobiles rest (xs @ [mobile])) = (xs @ [mobile]) @ zs" by blast
      then show ?thesis using Returns False by simp
    qed
  qed
qed

lemma generateTestData_inventory:
  assumes "inventory st = JArr xs"
  shows "\<exists>zs. inventory (snd (generateTestData stringify write_ok c clock st)) = JArr (xs @ zs)"
proof (cases c)
  case False
  then show ?thesis using assms by (simp add: generateTestData_def)
next
  case True
  obtain zs where zs: "snd (pushTestMobiles (testMobiles clock) xs) = xs @ zs"
    using pushTestMobiles_appends by blast
  show ?thesis
  proof (cases "fst (pushTestMobiles (testMobiles clock) xs)")
    case threw: True
    then show ?thesis using assms True zs
      by (cases "pushTestMobiles (testMobiles clock) xs") (simp add: generateTestData_def)
  next
    case ok: False
    then show ?thesis using assms True zs
      by (cases "pushTestMobiles (testMobiles clock) xs")
         (simp add: generateTestData_def Let_def case_prod_unfold)
  qed
qed

lemma editMobile_inventory: "inventory (snd (editMobile idv st)) = inventory st"
  by (simp add: editMobile_def split: json.splits completion.splits option.splits)

lemma cancelEdit_inventory: "inventory (cancelEdit st) = inventory st"
  by (simp add: cancelEdit_def)

lemma form_data_no_sold: "''sold'' \<notin> fst ` set (AList.update ''image'' img (mobileData b m i f))"
  by (simp add: mobileData_def)

lemma handleFormSubmit_keeps:
  assumes "inventory st = JArr xs"
  shows "\<exists>ys. inventory (snd (handleFormSubmit stringify write_ok now f st)) = JArr ys
            \<and> length xs \<le> length ys \<and> (\<forall>j<length xs. keeps (xs ! j) (ys ! j))"
proof -
  consider (same) "inventory (snd (handleFormSubmit stringify write_ok now f st)) = inventory st"
    | (added) new where "inventory (snd (handleFormSubmit stringify write_ok now f st)) = JArr (xs @ [new])"
    | (edited) d where "''sold'' \<notin> fst ` set d"
        "inventory (snd (handleFormSubmit stringify write_ok now f st))
           = inventory (snd (updateMobile stringify write_ok (editingId st) d st))"
    using handleFormSubmit_inventory_cases [of stringify write_ok now f st] assms form_data_no_sold
    by auto blast
  then show ?thesis
  proof cases
    case same
    then show ?thesis using assms by (simp add: keeps_refl)
  next
    case added
    then show ?thesis by (simp add: nth_append keeps_refl)
  next
    case edited
    from updateMobile_keeps [OF assms edited(1), of stringify write_ok "editingId st"]
    obtain ys where "inventory (snd (updateMobile stringify write_ok (editingId st) d st)) = JArr ys"
      "length ys = length xs" "\<forall>j<length xs. keeps (xs ! j) (ys ! j)" by blast
    then show ?thesis using edited(2) by simp
  qed
qed

subsection \<open>Unique IMEIs\<close>

lemma some_js_False: "some_js p xs = Returns False \<Longrightarrow> \<forall>x\<in>set xs. p x = Returns False"
  by (induction xs) (auto split: completion.splits bool.splits)

lemma some_js_append:
  "some_js p xs = Returns False \<Longrightarrow> some_js p (xs @ ys) = some_js p ys"
  by (induction xs) (auto split: completion.splits bool.splits)


lemma new_mobile_imei:
  "get_prop ''imei'' (JObj (spread [(''id'', JNum now)] (AList.update ''image'' img (mobileData b m i f))))
     = Some (JStr (trim i))"
  by (simp add: mobileData_def spread_def)








subsection \<open>Searching for a new record\<close>

lemma lower_char_digit: "is_digit c \<Longrightarrow> lower_char c = c"
  by (auto simp: is_digit_def lower_char_def)

lemma toLowerCase_digits: "list_all is_digit s \<Longrightarrow> toLowerCase s = s"
  by (induction s) (simp_all add: toLowerCase_def lower_char_digit)

lemma str_includes_self: "str_includes s s"
  by (cases s) simp_all

lemma filter_js_snoc:
  "filter_js p xs = Returns rs \<Longrightarrow> p y = Returns True
     \<Longrightarrow> filter_js p (xs @ [y]) = Returns (rs @ [y])"
  by (induction xs arbitrary: rs) (auto split: completion.splits)

lemma findIndex_js_snoc:
  "\<forall>x\<in>set xs. p x = Returns False \<Longrightarrow> p y = Returns True
     \<Longrightarrow> findIndex_js p (xs @ [y]) = Returns (Some (length xs))"
  by (induction xs) auto

lemma matches_new_mobile:
  "matches (trim i) (JObj (spread [(''id'', JNum now)]
       (AList.update ''image'' img (mobileData b m i f)))) = Returns True"
  by (simp add: matches_def mobileData_def spread_def lower_of_def includes_of_def
       str_includes_self)

lemma validateIMEI_nonempty: "validateIMEI s \<Longrightarrow> s \<noteq> [] \<and> toLowerCase s = s"
  by (auto simp: validateIMEI_def toLowerCase_digits)

lemma search_finds_new_mobile:
  assumes "validateIMEI (trim i)" and "searchInventory (trim i) (JArr xs) = Returns rs"
  shows "searchInventory (trim i) (JArr (xs @ [JObj (spread [(''id'', JNum now)]
            (AList.update ''image'' img (mobileData b m i f)))]))
           = Returns (rs @ [JObj (spread [(''id'', JNum now)]
            (AList.update ''image'' img (mobileData b m i f)))])"
  using assms validateIMEI_nonempty [OF assms(1)]
  by (simp add: searchInventory_def Let_def filter_js_snoc matches_new_mobile)

lemma not_validation_error:
  assumes "brand_field f = Some b" "model_field f = Some m" "imei_field f = Some i"
    and "validateIMEI (trim i)"
  shows "fst (handleFormSubmit stringify write_ok now f st)
           \<noteq> Done [Error ''IMEI must be exactly 15 digits.'']"
  using assms
  by (auto simp: handleFormSubmit_def Let_def
           split: completion.splits bool.splits option.splits prod.splits result.splits)

subsection \<open>Trimming and accepted submissions\<close>

lemma dropWhile_none: "\<forall>c\<in>set s. \<not> P c \<Longrightarrow> dropWhile P s = s"
  by (cases s) simp_all

lemma digit_not_space: "is_digit c \<Longrightarrow> \<not> is_space c"
  by (auto simp: is_digit_def is_space_def)

lemma trim_digits: "validateIMEI s \<Longrightarrow> trim s = s"
proof -
  assume "validateIMEI s"
  then have d: "\<forall>c\<in>set s. \<not> is_space c"
    by (auto simp: validateIMEI_def list_all_iff digit_not_space)
  then have "dropWhile is_space s = s" by (rule dropWhile_none)
  moreover have "dropWhile is_space (rev s) = rev s" using d by (intro dropWhile_none) simp
  ultimately show ?thesis by (simp add: trim_def)
qed

lemma handleFormSubmit_accepted:
  assumes "fst (handleFormSubmit stringify write_ok now f st)
             = Done (ns @ [Success ''Mobile added to inventory successfully!''])"
  shows "\<exists>b m i img xs. brand_field f = Some b \<and> model_field f = Some m \<and> imei_field f = Some i
           \<and> validateIMEI (trim i) \<and> \<not> isEditing st \<and> inventory st = JArr xs
           \<and> some_js (imei_is (Some (JStr (trim i)))) xs = Returns False
           \<and> form_image (photo_field f) = Some img"
proof -
  obtain b where b: "brand_field f = Some b"
    using assms by (cases "brand_field f") (auto simp: handleFormSubmit_def)
  obtain m where m: "model_field f = Some m"
    using assms b by (cases "model_field f") (auto simp: handleFormSubmit_def)
  obtain i where i: "imei_field f = Some i"
    using assms b m by (cases "imei_field f") (auto simp: handleFormSubmit_def)
  have valid: "validateIMEI (trim i)"
    using assms handleFormSubmit_invalid [OF b m i, of stringify write_ok now st]
    by (cases "validateIMEI (trim i)") auto
  have add: "\<not> isEditing st"
  proof
    assume "isEditing st"
    then show False using assms b m i valid
      by (auto simp: handleFormSubmit_def Let_def
               split: option.splits prod.splits result.splits)
  qed
  obtain img where img: "form_image (photo_field f) = Some img"
    using assms b m i valid add
    by (cases "form_image (photo_field f)")
       (auto simp: handleFormSubmit_def split: completion.splits bool.splits)
  obtain xs where arr: "inventory st = JArr xs"
    using assms b m i valid add
    by (cases "inventory st") (auto simp: handleFormSubmit_def isDuplicateIMEI_def)
  have fresh: "some_js (imei_is (Some (JStr (trim i)))) xs = Returns False"
    using assms b m i valid add arr
    by (cases "some_js (imei_is (Some (JStr (trim i)))) xs")
       (auto simp: handleFormSubmit_def isDuplicateIMEI_def split: bool.splits)
  show ?thesis using b m i valid add img arr fresh by blast
qed

section \<open>The claims about the inventory\<close>

lemmas handler_defs =
  handleFormSubmit_def trim_def is_space_def validateIMEI_def is_digit_def
  isDuplicateIMEI_def imei_is_def form_image_def processImage_def addMobile_def
  updateMobile_def deleteMobile_def markAsSold_def editMobile_def id_is_def id_is_not_def
  mobileData_def spread_def saveInventory_def str_or_null_def resetEditMode_def Let_def
  manager_with_def phone_form_def phone_def

lemmas sample_defs = phoneA_def soldA_def phoneB_def sample_stringify_def sample_parse_def

text \<open>
  C8. An update never changes an id. On an inventory that is an array, \<open>updateMobile\<close>
  leaves the id of the record at every position as it was, whatever the field set, also
  when it has an \<^verbatim>\<open>id\<close> key; when the id is found at index \<open>k\<close>, the record there had
  and has that id and every other position is untouched; and when no record has the
  id, the whole state is unchanged.
\<close>

theorem updateMobile_preserves_id:
  assumes "inventory st = JArr xs"
  shows "(\<exists>ys. inventory (snd (updateMobile stringify write_ok idv updatedData st)) = JArr ys
              \<and> map (get_prop ''id'') ys = map (get_prop ''id'') xs
              \<and> (findIndex_js (id_is idv) xs = Returns (Some k) \<longrightarrow>
                    get_prop ''id'' (xs ! k) = Some idv \<and> get_prop ''id'' (ys ! k) = Some idv
                    \<and> (\<forall>j. j \<noteq> k \<longrightarrow> ys ! j = xs ! j)))
       \<and> ((\<forall>m\<in>set xs. get_prop ''id'' m \<noteq> Some idv)
              \<longrightarrow> snd (updateMobile stringify write_ok idv updatedData st) = st)"
proof (intro conjI impI)
  assume absent: "\<forall>m\<in>set xs. get_prop ''id'' m \<noteq> Some idv"
  have "\<forall>m\<in>set xs. id_is idv m \<noteq> Returns True"
    using absent id_is_True by blast
  then have "\<And>j. findIndex_js (id_is idv) xs \<noteq> Returns (Some j)"
    using findIndex_js_absent by blast
  then show "snd (updateMobile stringify write_ok idv updatedData st) = st"
    using assms by (auto simp: updateMobile_def split: completion.splits option.splits)
next
  show "\<exists>ys. inventory (snd (updateMobile stringify write_ok idv updatedData st)) = JArr ys
              \<and> map (get_prop ''id'') ys = map (get_prop ''id'') xs
              \<and> (findIndex_js (id_is idv) xs = Returns (Some k) \<longrightarrow>
                    get_prop ''id'' (xs ! k) = Some idv \<and> get_prop ''id'' (ys ! k) = Some idv
                    \<and> (\<forall>j. j \<noteq> k \<longrightarrow> ys ! j = xs ! j))"
  proof (cases "findIndex_js (id_is idv) xs")
    case Throws
    then show ?thesis using assms by (simp add: updateMobile_def)
  next
    case (Returns r)
    show ?thesis
    proof (cases r)
      case None
      then show ?thesis using Returns assms by (simp add: updateMobile_def)
    next
      case (Some i)
      let ?m = "JObj (AList.update ''id'' idv (spread (own_props (xs ! i)) updatedData))"
      have found: "findIndex_js (id_is idv) xs = Returns (Some i)" using Returns Some by simp
      have i: "i < length xs" and old: "get_prop ''id'' (xs ! i) = Some idv"
        using findIndex_js_Some [OF found] id_is_True by auto
      have new: "get_prop ''id'' ?m = Some idv" by (simp add: AList.update_conv')
      have inv': "inventory (snd (updateMobile stringify write_ok idv updatedData st)) = JArr (xs[i := ?m])"
        by (rule updateMobile_found [OF assms found])
      have ids: "map (get_prop ''id'') (xs[i := ?m]) = map (get_prop ''id'') xs"
        using i old new by (simp add: map_update list_update_same_conv)
      show ?thesis using inv' ids i old new found by auto
    qed
  qed
qed

theorem updateMobile_preserves_id_witness:
  "inventory (manager_with [phone 1 ''Samsung'' ''Galaxy A54'' ''123456789012345'',
                            phone 2 ''Apple'' ''iPhone 13'' ''234567890123456''])
     = JArr [phone 1 ''Samsung'' ''Galaxy A54'' ''123456789012345'',
             phone 2 ''Apple'' ''iPhone 13'' ''234567890123456'']
   \<and> findIndex_js (id_is (JNum 1))
        [phone 1 ''Samsung'' ''Galaxy A54'' ''123456789012345'',
         phone 2 ''Apple'' ''iPhone 13'' ''234567890123456''] = Returns (Some 0)
   \<and> inventory (snd (updateMobile (\<lambda>v. ''<json>'') True (JNum 1)
          [(''id'', JNum 999), (''brand'', JStr ''Nokia'')]
          (manager_with [phone 1 ''Samsung'' ''Galaxy A54'' ''123456789012345'',
                         phone 2 ''Apple'' ''iPhone 13'' ''234567890123456''])))
     = JArr [phone 1 ''Nokia'' ''Galaxy A54'' ''123456789012345'',
             phone 2 ''Apple'' ''iPhone 13'' ''234567890123456'']
   \<and> Some (JNum 7) \<notin> set (map (get_prop ''id'')
          [phone 1 ''Samsung'' ''Galaxy A54'' ''123456789012345'',
           phone 2 ''Apple'' ''iPhone 13'' ''234567890123456''])
   \<and> snd (updateMobile (\<lambda>v. ''<json>'') True (JNum 7)
          [(''id'', JNum 999), (''brand'', JStr ''Nokia'')]
          (manager_with [phone 1 ''Samsung'' ''Galaxy A54'' ''123456789012345'',
                         phone 2 ''Apple'' ''iPhone 13'' ''234567890123456'']))
     = manager_with [phone 1 ''Samsung'' ''Galaxy A54'' ''123456789012345'',
                     phone 2 ''Apple'' ''iPhone 13'' ''234567890123456'']"
proof -
  let ?xs = "[phone 1 ''Samsung'' ''Galaxy A54'' ''123456789012345'',
              phone 2 ''Apple'' ''iPhone 13'' ''234567890123456'']"
  have h: "inventory (manager_with ?xs) = JArr ?xs" by (simp add: manager_with_def)
  from updateMobile_preserves_id
         [OF h, of "\<lambda>v. ''<json>''" True "JNum 1" "[(''id'', JNum 999), (''brand'', JStr ''Nokia'')]" 0]
       updateMobile_preserves_id
         [OF h, of "\<lambda>v. ''<json>''" True "JNum 7" "[(''id'', JNum 999), (''brand'', JStr ''Nokia'')]" 0]
  show ?thesis by (simp add: handler_defs)
qed

text \<open>
  C7, as the code has it. On an inventory that is an array of records (no entry is
  \<^verbatim>\<open>null\<close>), a confirmed delete leaves exactly the records with another id; a search
  for the id then finds nothing; the length decreases by the number of records that
  had the id, which is one when the ids of the inventory are distinct and the id is
  present.
\<close>

theorem deleteMobile_removes_id:
  assumes "inventory st = JArr xs" and "JNull \<notin> set xs"
  shows "inventory (snd (deleteMobile stringify write_ok True idv st))
           = JArr (filter (\<lambda>m. get_prop ''id'' m \<noteq> Some idv) xs)
       \<and> findIndex_js (id_is idv) (filter (\<lambda>m. get_prop ''id'' m \<noteq> Some idv) xs) = Returns None
       \<and> length (filter (\<lambda>m. get_prop ''id'' m \<noteq> Some idv) xs)
           + length (filter (\<lambda>m. get_prop ''id'' m = Some idv) xs) = length xs
       \<and> (distinct (map (get_prop ''id'') xs) \<and> (\<exists>m\<in>set xs. get_prop ''id'' m = Some idv)
            \<longrightarrow> length (filter (\<lambda>m. get_prop ''id'' m \<noteq> Some idv) xs) + 1 = length xs)"
proof -
  let ?ys = "filter (\<lambda>m. get_prop ''id'' m \<noteq> Some idv) xs"
  have a: "inventory (snd (deleteMobile stringify write_ok True idv st)) = JArr ?ys"
    using assms by (simp add: deleteMobile_def filter_js_id_is_not case_prod_unfold Let_def)
  have "\<forall>m\<in>set ?ys. id_is idv m = Returns False"
    using assms(2) by (auto simp: id_is_def)
  then have b: "findIndex_js (id_is idv) ?ys = Returns None"
    by (rule findIndex_js_none)
  have c: "length ?ys + length (filter (\<lambda>m. get_prop ''id'' m = Some idv) xs) = length xs"
    using sum_length_filter_compl [of "\<lambda>m. get_prop ''id'' m = Some idv" xs] by simp
  have d: "length ?ys + 1 = length xs"
    if "distinct (map (get_prop ''id'') xs)" and "\<exists>m\<in>set xs. get_prop ''id'' m = Some idv"
  proof -
    from that(2) obtain m where m: "m \<in> set xs" "get_prop ''id'' m = Some idv" by blast
    have "length (filter (\<lambda>x. get_prop ''id'' x = get_prop ''id'' m) xs) = 1"
      by (rule length_filter_distinct_key [OF that(1) m(1)])
    with c m(2) show ?thesis by simp
  qed
  show ?thesis using a b c d by blast
qed

theorem deleteMobile_removes_id_witness:
  "inventory (manager_with [phone 1 ''Samsung'' ''Galaxy A54'' ''123456789012345'',
                            phone 2 ''Apple'' ''iPhone 13'' ''234567890123456''])
     = JArr [phone 1 ''Samsung'' ''Galaxy A54'' ''123456789012345'',
             phone 2 ''Apple'' ''iPhone 13'' ''234567890123456'']
   \<and> JNull \<notin> set [phone 1 ''Samsung'' ''Galaxy A54'' ''123456789012345'',
                     phone 2 ''Apple'' ''iPhone 13'' ''234567890123456'']
   \<and> distinct (map (get_prop ''id'')
         [phone 1 ''Samsung'' ''Galaxy A54'' ''123456789012345'',
          phone 2 ''Apple'' ''iPhone 13'' ''234567890123456''])
   \<and> inventory (snd (deleteMobile (\<lambda>v. ''<json>'') True True (JNum 1)
          (manager_with [phone 1 ''Samsung'' ''Galaxy A54'' ''123456789012345'',
                         phone 2 ''Apple'' ''iPhone 13'' ''234567890123456''])))
     = JArr [phone 2 ''Apple'' ''iPhone 13'' ''234567890123456'']
   \<and> findIndex_js (id_is (JNum 1)) [phone 2 ''Apple'' ''iPhone 13'' ''234567890123456'']
     = Returns None"
proof -
  let ?xs = "[phone 1 ''Samsung'' ''Galaxy A54'' ''123456789012345'',
              phone 2 ''Apple'' ''iPhone 13'' ''234567890123456'']"
  have h1: "inventory (manager_with ?xs) = JArr ?xs" by (simp add: manager_with_def)
  have h2: "JNull \<notin> set ?xs" by (simp add: phone_def)
  from deleteMobile_removes_id [OF h1 h2, of "\<lambda>v. ''<json>''" True "JNum 1"]
  show ?thesis by (simp add: handler_defs)
qed

text \<open>
  C7 as the specification states it fails: two records added at the same reading of
  the clock have the same id, and deleting that id removes both, so the length goes
  from two to zero.
\<close>

theorem delete_shared_id_counterexample:
  "inventory (snd (handleFormSubmit (\<lambda>v. ''<json>'') True 1000
        (phone_form ''Apple'' ''iPhone 13'' ''234567890123456'')
        (snd (handleFormSubmit (\<lambda>v. ''<json>'') True 1000
           (phone_form ''Samsung'' ''Galaxy A54'' ''123456789012345'') (manager_with [])))))
     = JArr [phone 1000 ''Samsung'' ''Galaxy A54'' ''123456789012345'',
             phone 1000 ''Apple'' ''iPhone 13'' ''234567890123456'']
   \<and> inventory (snd (deleteMobile (\<lambda>v. ''<json>'') True True (JNum 1000)
        (snd (handleFormSubmit (\<lambda>v. ''<json>'') True 1000
           (phone_form ''Apple'' ''iPhone 13'' ''234567890123456'')
           (snd (handleFormSubmit (\<lambda>v. ''<json>'') True 1000
              (phone_form ''Samsung'' ''Galaxy A54'' ''123456789012345'') (manager_with [])))))))
     = JArr []"
  by (simp add: handler_defs)

lemma markAsSold_reload:
  assumes "parse [] = None" and "inventory st = JArr xs"
    and "findIndex_js (id_is idv) xs = Returns (Some k)"
    and "parse (stringify (JArr (xs[k := assign ''sold'' (JBool True) (xs ! k)])))
           = Some (JArr (xs[k := assign ''sold'' (JBool True) (xs ! k)]))"
  shows "inventory (constructor parse (localStorage (snd (markAsSold stringify True True idv st))))
           = JArr (xs[k := assign ''sold'' (JBool True) (xs ! k)])"
proof -
  from assms(1,4) have "stringify (JArr (xs[k := assign ''sold'' (JBool True) (xs ! k)])) \<noteq> []"
    by auto
  then show ?thesis using assms
    by (simp add: markAsSold_state constructor_def loadInventory_def saveInventory_def)
qed

text \<open>
  C9, as the code has it. Marking as sold is idempotent: marking the same id twice gives
  the inventory that marking it once gives, whatever the two writes to storage do, and
  the same state when they fare alike. The operations reachable from the page do not
  make a sold record of the running manager unsold: after a form submission (add or
  edit mode) and after marking any id as sold, every position of the old inventory
  holds a record with the same id that is sold if the old one was; a delete leaves the
  inventory as it is or removes the records of one id and changes none; generating test
  data appends only; entering and leaving edit mode do not touch the inventory. An
  update keeps every sold record sold when its field set has no \<^verbatim>\<open>sold\<close> key. And when
  the write of a marking succeeds and the platform's parser reads back what its
  serialiser wrote, a restart loads the inventory with the record marked.
\<close>

theorem markAsSold_idempotent_and_final:
  "inventory (snd (markAsSold stringify w2 True idv (snd (markAsSold stringify w1 True idv st))))
     = inventory (snd (markAsSold stringify w1 True idv st))
   \<and> snd (markAsSold stringify w True idv (snd (markAsSold stringify w True idv st)))
     = snd (markAsSold stringify w True idv st)
   \<and> (inventory st = JArr xs \<longrightarrow>
        (\<exists>ys. inventory (snd (handleFormSubmit stringify w now f st)) = JArr ys
              \<and> length xs \<le> length ys \<and> (\<forall>j<length xs. keeps (xs ! j) (ys ! j)))
      \<and> (\<exists>ys. inventory (snd (markAsSold stringify w c idv st)) = JArr ys
              \<and> length ys = length xs \<and> (\<forall>j<length xs. keeps (xs ! j) (ys ! j)))
      \<and> (inventory (snd (deleteMobile stringify w c idv st)) = JArr xs
           \<or> inventory (snd (deleteMobile stringify w c idv st))
                = JArr (filter (\<lambda>m. get_prop ''id'' m \<noteq> Some idv) xs))
      \<and> (\<exists>zs. inventory (snd (generateTestData stringify w c clock st)) = JArr (xs @ zs))
      \<and> inventory (snd (editMobile idv st)) = JArr xs
      \<and> inventory (cancelEdit st) = JArr xs
      \<and> (''sold'' \<notin> fst ` set d \<longrightarrow>
           (\<exists>ys. inventory (snd (updateMobile stringify w idv d st)) = JArr ys
                 \<and> length ys = length xs \<and> (\<forall>j<length xs. keeps (xs ! j) (ys ! j))))
      \<and> (parse [] = None \<and> findIndex_js (id_is idv) xs = Returns (Some k)
           \<and> parse (stringify (JArr (xs[k := assign ''sold'' (JBool True) (xs ! k)])))
               = Some (JArr (xs[k := assign ''sold'' (JBool True) (xs ! k)]))
          \<longrightarrow> inventory (constructor parse
                  (localStorage (snd (markAsSold stringify True True idv st))))
                = JArr (xs[k := assign ''sold'' (JBool True) (xs ! k)])))"
proof (intro conjI impI)
  show "inventory (snd (markAsSold stringify w2 True idv (snd (markAsSold stringify w1 True idv st))))
          = inventory (snd (markAsSold stringify w1 True idv st))"
    by (rule markAsSold_twice_inventory)
  show "snd (markAsSold stringify w True idv (snd (markAsSold stringify w True idv st)))
          = snd (markAsSold stringify w True idv st)"
    by (rule markAsSold_twice_state)
next
  assume arr: "inventory st = JArr xs"
  show "\<exists>ys. inventory (snd (handleFormSubmit stringify w now f st)) = JArr ys
              \<and> length xs \<le> length ys \<and> (\<forall>j<length xs. keeps (xs ! j) (ys ! j))"
    by (rule handleFormSubmit_keeps [OF arr])
  show "\<exists>ys. inventory (snd (markAsSold stringify w c idv st)) = JArr ys
              \<and> length ys = length xs \<and> (\<forall>j<length xs. keeps (xs ! j) (ys ! j))"
    by (rule markAsSold_keeps [OF arr])
  show "inventory (snd (deleteMobile stringify w c idv st)) = JArr xs
           \<or> inventory (snd (deleteMobile stringify w c idv st))
                = JArr (filter (\<lambda>m. get_prop ''id'' m \<noteq> Some idv) xs)"
    by (rule deleteMobile_inventory [OF arr])
  show "\<exists>zs. inventory (snd (generateTestData stringify w c clock st)) = JArr (xs @ zs)"
    by (rule generateTestData_inventory [OF arr])
  show "inventory (snd (editMobile idv st)) = JArr xs"
    using arr by (simp add: editMobile_inventory)
  show "inventory (cancelEdit st) = JArr xs"
    using arr by (simp add: cancelEdit_inventory)
next
  assume arr: "inventory st = JArr xs" and nokey: "''sold'' \<notin> fst ` set d"
  show "\<exists>ys. inventory (snd (updateMobile stringify w idv d st)) = JArr ys
                 \<and> length ys = length xs \<and> (\<forall>j<length xs. keeps (xs ! j) (ys ! j))"
    by (rule updateMobile_keeps [OF arr nokey])
next
  assume arr: "inventory st = JArr xs"
    and h: "parse [] = None \<and> findIndex_js (id_is idv) xs = Returns (Some k)
           \<and> parse (stringify (JArr (xs[k := assign ''sold'' (JBool True) (xs ! k)])))
               = Some (JArr (xs[k := assign ''sold'' (JBool True) (xs ! k)]))"
  show "inventory (constructor parse (localStorage (snd (markAsSold stringify True True idv st))))
          = JArr (xs[k := assign ''sold'' (JBool True) (xs ! k)])"
    using h by (intro markAsSold_reload [OF _ arr]) simp_all
qed

theorem markAsSold_idempotent_and_final_witness:
  "inventory (manager_with [phoneA]) = JArr [phoneA]
   \<and> inventory (snd (markAsSold sample_stringify True True (JNum 1) (manager_with [phoneA])))
     = JArr [soldA]
   \<and> is_sold soldA
   \<and> inventory (snd (markAsSold sample_stringify True True (JNum 1)
        (snd (markAsSold sample_stringify True True (JNum 1) (manager_with [phoneA])))))
     = JArr [soldA]
   \<and> ''sold'' \<notin> fst ` set [(''brand'', JStr ''Nokia'')]
   \<and> inventory (snd (updateMobile sample_stringify True (JNum 1) [(''brand'', JStr ''Nokia'')]
        (manager_with [soldA])))
     = JArr [assign ''sold'' (JBool True) (phone 1 ''Nokia'' ''Galaxy A54'' ''123456789012345'')]
   \<and> sample_parse [] = None
   \<and> findIndex_js (id_is (JNum 1)) [phoneA] = Returns (Some 0)
   \<and> sample_parse (sample_stringify (JArr [soldA])) = Some (JArr [soldA])
   \<and> inventory (constructor sample_parse
        (localStorage (snd (markAsSold sample_stringify True True (JNum 1) (manager_with [phoneA])))))
     = JArr [soldA]"
proof -
  have h: "inventory (manager_with [phoneA]) = JArr [phoneA]"
    by (simp add: manager_with_def)
  have h': "inventory (manager_with [soldA]) = JArr [soldA]"
    by (simp add: manager_with_def)
  from markAsSold_idempotent_and_final
         [of sample_stringify True "JNum 1" True "manager_with [phoneA]" True "[phoneA]"
             _ _ _ _ _ sample_parse 0]
       markAsSold_idempotent_and_final
         [of sample_stringify True "JNum 1" True "manager_with [soldA]" True "[soldA]"
             _ _ _ _ "[(''brand'', JStr ''Nokia'')]"]
  show ?thesis
    by (simp add: handler_defs sample_defs is_sold_def constructor_def loadInventory_def)
qed

text \<open>
  C9 as the specification states it fails in its second half. An update whose field
  set carries \<^verbatim>\<open>sold: false\<close> turns the sold record into an unsold one with the same id;
  and when the write of a marking fails, the record is sold in memory only, and a
  restart loads it unsold from storage.
\<close>

theorem sold_reversed_counterexample:
  "inventory (snd (markAsSold sample_stringify True True (JNum 1) (manager_with [phoneA])))
     = JArr [soldA]
   \<and> is_sold soldA
   \<and> inventory (snd (updateMobile sample_stringify True (JNum 1) [(''sold'', JBool False)]
        (snd (markAsSold sample_stringify True True (JNum 1) (manager_with [phoneA])))))
     = JArr [assign ''sold'' (JBool False) phoneA]
   \<and> get_prop ''id'' (assign ''sold'' (JBool False) phoneA) = get_prop ''id'' soldA
   \<and> \<not> is_sold (assign ''sold'' (JBool False) phoneA)
   \<and> inventory (snd (markAsSold sample_stringify False True (JNum 1)
        (snd (handleFormSubmit sample_stringify True 1
           (phone_form ''Samsung'' ''Galaxy A54'' ''123456789012345'') (manager_with [])))))
     = JArr [soldA]
   \<and> inventory (constructor sample_parse (localStorage
        (snd (markAsSold sample_stringify False True (JNum 1)
           (snd (handleFormSubmit sample_stringify True 1
              (phone_form ''Samsung'' ''Galaxy A54'' ''123456789012345'') (manager_with [])))))))
     = JArr [phoneA]
   \<and> get_prop ''id'' phoneA = get_prop ''id'' soldA
   \<and> \<not> is_sold phoneA"
  by (simp add: handler_defs sample_defs is_sold_def constructor_def loadInventory_def)




text \<open>
  C1, as the code has it. The handler judges the IMEI field after trimming it, and a
  string of exactly 15 digits is its own trimmed form. When the trimmed IMEI is not
  exactly 15 digits, the submission is aborted with the validation failure and the
  state is unchanged. When it is, the submission passes validation; and if moreover
  the manager is not in edit mode, the inventory is an array in which no record has
  that IMEI, and the photo, if any, is processed, then the new record is appended with
  the IMEI and the clock reading as its id, the duplicate check and a search by index
  find it under that IMEI, and a search of the inventory for the IMEI returns what it
  returned before followed by the new record.
\<close>

theorem add_validates_imei:
  assumes "brand_field f = Some b" and "model_field f = Some m" and "imei_field f = Some i"
  shows "(validateIMEI i \<longrightarrow> trim i = i)
       \<and> (\<not> validateIMEI (trim i) \<longrightarrow>
            handleFormSubmit stringify write_ok now f st
              = (Done [Error ''IMEI must be exactly 15 digits.''], st))
       \<and> (validateIMEI (trim i) \<longrightarrow>
            fst (handleFormSubmit stringify write_ok now f st)
              \<noteq> Done [Error ''IMEI must be exactly 15 digits.''])
       \<and> (validateIMEI (trim i) \<and> \<not> isEditing st \<and> inventory st = JArr xs
            \<and> isDuplicateIMEI (Some (JStr (trim i))) (JArr xs) = Returns False
            \<and> form_image (photo_field f) = Some img \<and>
            new = JObj (spread [(''id'', JNum now)] (AList.update ''image'' img (mobileData b m i f)))
          \<longrightarrow>
            inventory (snd (handleFormSubmit stringify write_ok now f st)) = JArr (xs @ [new])
            \<and> get_prop ''imei'' new = Some (JStr (trim i))
            \<and> get_prop ''id'' new = Some (JNum now)
            \<and> isDuplicateIMEI (Some (JStr (trim i))) (JArr (xs @ [new])) = Returns True
            \<and> findIndex_js (imei_is (Some (JStr (trim i)))) (xs @ [new]) = Returns (Some (length xs))
            \<and> (\<forall>rs. searchInventory (trim i) (JArr xs) = Returns rs \<longrightarrow>
                   searchInventory (trim i) (JArr (xs @ [new])) = Returns (rs @ [new])))"
proof (intro conjI impI)
  assume "validateIMEI i"
  then show "trim i = i" by (rule trim_digits)
next
  assume "\<not> validateIMEI (trim i)"
  then show "handleFormSubmit stringify write_ok now f st
              = (Done [Error ''IMEI must be exactly 15 digits.''], st)"
    by (rule handleFormSubmit_invalid [OF assms])
next
  assume "validateIMEI (trim i)"
  then show "fst (handleFormSubmit stringify write_ok now f st)
              \<noteq> Done [Error ''IMEI must be exactly 15 digits.'']"
    by (rule not_validation_error [OF assms])
next
  assume h: "validateIMEI (trim i) \<and> \<not> isEditing st \<and> inventory st = JArr xs
            \<and> isDuplicateIMEI (Some (JStr (trim i))) (JArr xs) = Returns False
            \<and> form_image (photo_field f) = Some img \<and>
            new = JObj (spread [(''id'', JNum now)] (AList.update ''image'' img (mobileData b m i f)))"
  then have valid: "validateIMEI (trim i)" and add: "\<not> isEditing st"
    and arr: "inventory st = JArr xs"
    and fresh: "some_js (imei_is (Some (JStr (trim i)))) xs = Returns False"
    and img: "form_image (photo_field f) = Some img"
    and new: "new = JObj (spread [(''id'', JNum now)] (AList.update ''image'' img (mobileData b m i f)))"
    by (simp_all add: isDuplicateIMEI_def)
  have imei: "get_prop ''imei'' new = Some (JStr (trim i))"
    unfolding new by (rule new_mobile_imei)
  have hit: "imei_is (Some (JStr (trim i))) new = Returns True"
    using imei by (simp add: imei_is_def new)
  have miss: "\<forall>x\<in>set xs. imei_is (Some (JStr (trim i))) x = Returns False"
    by (rule some_js_False [OF fresh])
  show "inventory (snd (handleFormSubmit stringify write_ok now f st)) = JArr (xs @ [new])"
    unfolding new handleFormSubmit_add [OF assms valid add arr fresh img] by simp
  show "get_prop ''imei'' new = Some (JStr (trim i))" by (rule imei)
  show "get_prop ''id'' new = Some (JNum now)"
    unfolding new by (simp add: mobileData_def spread_def)
  show "isDuplicateIMEI (Some (JStr (trim i))) (JArr (xs @ [new])) = Returns True"
    using hit by (simp add: isDuplicateIMEI_def some_js_append [OF fresh])
  show "findIndex_js (imei_is (Some (JStr (trim i)))) (xs @ [new]) = Returns (Some (length xs))"
    by (rule findIndex_js_snoc [OF miss hit])
  show "\<forall>rs. searchInventory (trim i) (JArr xs) = Returns rs \<longrightarrow>
                   searchInventory (trim i) (JArr (xs @ [new])) = Returns (rs @ [new])"
    unfolding new using search_finds_new_mobile [OF valid] by blast
qed

theorem add_validates_imei_witness:
  "validateIMEI (trim '' 123456789012345 '')
   \<and> \<not> validateIMEI (trim ''12345678901234x'')
   \<and> handleFormSubmit (\<lambda>v. ''<json>'') True 1000
        (phone_form ''Samsung'' ''Galaxy A54'' ''12345678901234x'') (manager_with [])
     = (Done [Error ''IMEI must be exactly 15 digits.''], manager_with [])
   \<and> isDuplicateIMEI (Some (JStr (trim '' 123456789012345 ''))) (JArr []) = Returns False
   \<and> inventory (snd (handleFormSubmit (\<lambda>v. ''<json>'') True 1000
        (phone_form ''Samsung'' ''Galaxy A54'' '' 123456789012345 '') (manager_with [])))
     = JArr [phone 1000 ''Samsung'' ''Galaxy A54'' ''123456789012345'']
   \<and> searchInventory ''123456789012345''
        (JArr [phone 1000 ''Samsung'' ''Galaxy A54'' ''123456789012345''])
     = Returns [phone 1000 ''Samsung'' ''Galaxy A54'' ''123456789012345'']"
proof -
  have b: "brand_field (phone_form ''Samsung'' ''Galaxy A54'' ''12345678901234x'') = Some ''Samsung''"
    and m: "model_field (phone_form ''Samsung'' ''Galaxy A54'' ''12345678901234x'') = Some ''Galaxy A54''"
    and i: "imei_field (phone_form ''Samsung'' ''Galaxy A54'' ''12345678901234x'') = Some ''12345678901234x''"
    by (simp_all add: phone_form_def)
  have b': "brand_field (phone_form ''Samsung'' ''Galaxy A54'' '' 123456789012345 '') = Some ''Samsung''"
    and m': "model_field (phone_form ''Samsung'' ''Galaxy A54'' '' 123456789012345 '') = Some ''Galaxy A54''"
    and i': "imei_field (phone_form ''Samsung'' ''Galaxy A54'' '' 123456789012345 '') = Some '' 123456789012345 ''"
    by (simp_all add: phone_form_def)
  from add_validates_imei [OF b m i, of "\<lambda>v. ''<json>''" True 1000 "manager_with []"]
       add_validates_imei [OF b' m' i', of "\<lambda>v. ''<json>''" True 1000 "manager_with []" "[]" JNull
          "phone 1000 ''Samsung'' ''Galaxy A54'' ''123456789012345''"]
  show ?thesis
    by (simp add: handler_defs searchInventory_def matches_def lower_of_def includes_of_def
          toLowerCase_def lower_char_def)
qed

text \<open>
  C1 as the specification states it fails: an IMEI of exactly 15 digits that a record
  of the inventory already has is rejected as a duplicate, so the submitted record is
  not added, and a search for the IMEI returns the old record only.
\<close>

theorem add_duplicate_counterexample:
  "validateIMEI ''123456789012345''
   \<and> handleFormSubmit (\<lambda>v. ''<json>'') True 2000
        (phone_form ''Apple'' ''iPhone 13'' ''123456789012345'')
        (manager_with [phone 1000 ''Samsung'' ''Galaxy A54'' ''123456789012345''])
     = (Done [Error ''A mobile with this IMEI already exists in inventory.''],
        manager_with [phone 1000 ''Samsung'' ''Galaxy A54'' ''123456789012345''])
   \<and> searchInventory ''123456789012345''
        (JArr [phone 1000 ''Samsung'' ''Galaxy A54'' ''123456789012345''])
     = Returns [phone 1000 ''Samsung'' ''Galaxy A54'' ''123456789012345'']"
  by (simp add: handler_defs searchInventory_def matches_def lower_of_def includes_of_def
        toLowerCase_def lower_char_def)

text \<open>
  C2, as the code has it. When a form submission has added a record, the next
  submission in add mode whose trimmed IMEI is the same is rejected with the duplicate
  failure and leaves the whole state, and so the length of the inventory, as it is.
\<close>

theorem second_add_same_imei_rejected:
  assumes "handleFormSubmit stringify w1 now1 f1 st
             = (Done (ns @ [Success ''Mobile added to inventory successfully!'']), st1)"
    and "imei_field f1 = Some i1" and "imei_field f2 = Some i2" and "trim i2 = trim i1"
    and "brand_field f2 = Some b2" and "model_field f2 = Some m2"
  shows "handleFormSubmit stringify w2 now2 f2 st1
           = (Done [Error ''A mobile with this IMEI already exists in inventory.''], st1)
       \<and> (\<exists>xs. inventory st = JArr xs \<and> (\<exists>new. inventory st1 = JArr (xs @ [new])))"
proof -
  from handleFormSubmit_accepted [of stringify w1 now1 f1 st ns] assms(1)
  obtain b m i img xs where b: "brand_field f1 = Some b" and m: "model_field f1 = Some m"
    and i: "imei_field f1 = Some i" and valid: "validateIMEI (trim i)"
    and add: "\<not> isEditing st" and arr: "inventory st = JArr xs"
    and fresh: "some_js (imei_is (Some (JStr (trim i)))) xs = Returns False"
    and img: "form_image (photo_field f1) = Some img"
    by auto
  let ?new = "JObj (spread [(''id'', JNum now1)] (AList.update ''image'' img (mobileData b m i f1)))"
  have st1: "st1 = resetEditMode (snd (saveInventory stringify w1
                      (st\<lparr>inventory := JArr (xs @ [?new])\<rparr>)))"
    using assms(1) handleFormSubmit_add [OF b m i valid add arr fresh img, of stringify w1 now1]
    by simp
  have ii: "i1 = i" using assms(2) i by simp
  have inv1: "inventory st1 = JArr (xs @ [?new])" by (simp add: st1)
  have off: "\<not> isEditing st1" by (simp add: st1 resetEditMode_def)
  have hit: "imei_is (Some (JStr (trim i))) ?new = Returns True"
    using new_mobile_imei [of now1 img b m i f1] by (simp add: imei_is_def)
  have dup: "isDuplicateIMEI (Some (JStr (trim i2))) (inventory st1) = Returns True"
    using hit by (simp add: inv1 assms(4) ii isDuplicateIMEI_def some_js_append [OF fresh])
  have valid2: "validateIMEI (trim i2)" using valid assms(4) ii by simp
  have "handleFormSubmit stringify w2 now2 f2 st1
           = (Done [Error ''A mobile with this IMEI already exists in inventory.''], st1)"
    by (rule handleFormSubmit_duplicate [OF assms(5) assms(6) assms(3) valid2 off dup])
  then show ?thesis using arr inv1 by blast
qed

theorem second_add_same_imei_rejected_witness:
  "handleFormSubmit (\<lambda>v. ''<json>'') True 1000
      (phone_form ''Samsung'' ''Galaxy A54'' ''123456789012345'') (manager_with [])
     = (Done ([] @ [Success ''Mobile added to inventory successfully!'']),
        \<lparr>inventory = JArr [phone 1000 ''Samsung'' ''Galaxy A54'' ''123456789012345''],
         isEditing = False, editingId = JNull, localStorage = [storageKey \<mapsto> ''<json>'']\<rparr>)
   \<and> handleFormSubmit (\<lambda>v. ''<json>'') True 2000
      (phone_form ''Apple'' ''iPhone 13'' ''123456789012345 '')
      \<lparr>inventory = JArr [phone 1000 ''Samsung'' ''Galaxy A54'' ''123456789012345''],
       isEditing = False, editingId = JNull, localStorage = [storageKey \<mapsto> ''<json>'']\<rparr>
     = (Done [Error ''A mobile with this IMEI already exists in inventory.''],
        \<lparr>inventory = JArr [phone 1000 ''Samsung'' ''Galaxy A54'' ''123456789012345''],
         isEditing = False, editingId = JNull, localStorage = [storageKey \<mapsto> ''<json>'']\<rparr>)"
proof -
  let ?st1 = "\<lparr>inventory = JArr [phone 1000 ''Samsung'' ''Galaxy A54'' ''123456789012345''],
         isEditing = False, editingId = JNull, localStorage = [storageKey \<mapsto> ''<json>'']\<rparr>"
  have first: "handleFormSubmit (\<lambda>v. ''<json>'') True 1000
      (phone_form ''Samsung'' ''Galaxy A54'' ''123456789012345'') (manager_with [])
     = (Done ([] @ [Success ''Mobile added to inventory successfully!'']), ?st1)"
    by (simp add: handler_defs)
  have i1: "imei_field (phone_form ''Samsung'' ''Galaxy A54'' ''123456789012345'') = Some ''123456789012345''"
    and i2: "imei_field (phone_form ''Apple'' ''iPhone 13'' ''123456789012345 '') = Some ''123456789012345 ''"
    and b2: "brand_field (phone_form ''Apple'' ''iPhone 13'' ''123456789012345 '') = Some ''Apple''"
    and m2: "model_field (phone_form ''Apple'' ''iPhone 13'' ''123456789012345 '') = Some ''iPhone 13''"
    by (simp_all add: phone_form_def)
  have same: "trim ''123456789012345 '' = trim ''123456789012345''"
    by (simp add: trim_def is_space_def)
  from second_add_same_imei_rejected [OF first i1 i2 same b2 m2, of True 2000] first
  show ?thesis by simp
qed

text \<open>
  C2 as the specification states it fails when the first call did not add a record.
  Two submissions of an IMEI that is not 15 digits are both rejected with the
  validation failure, not the duplicate failure; and when the first submission of a
  valid IMEI is aborted because its photo is larger than 5 MB, the second one, without
  photo, is accepted and the inventory grows from none to one record.
\<close>

theorem add_twice_counterexample:
  "handleFormSubmit (\<lambda>v. ''<json>'') True 2000 (phone_form ''Samsung'' ''Galaxy A54'' ''12345'')
      (snd (handleFormSubmit (\<lambda>v. ''<json>'') True 1000
              (phone_form ''Samsung'' ''Galaxy A54'' ''12345'') (manager_with [])))
     = (Done [Error ''IMEI must be exactly 15 digits.''], manager_with [])
   \<and> handleFormSubmit (\<lambda>v. ''<json>'') True 1000
        ((phone_form ''Samsung'' ''Galaxy A54'' ''123456789012345'')
           \<lparr>photo_field := Some (File 6000000 (Some ''data:image/png;base64,AAAA''))\<rparr>)
        (manager_with [])
     = (Done [Error ''Failed to process image. Please try again.''], manager_with [])
   \<and> handleFormSubmit (\<lambda>v. ''<json>'') True 2000
        (phone_form ''Samsung'' ''Galaxy A54'' ''123456789012345'')
        (snd (handleFormSubmit (\<lambda>v. ''<json>'') True 1000
           ((phone_form ''Samsung'' ''Galaxy A54'' ''123456789012345'')
              \<lparr>photo_field := Some (File 6000000 (Some ''data:image/png;base64,AAAA''))\<rparr>)
           (manager_with [])))
     = (Done [Success ''Mobile added to inventory successfully!''],
        \<lparr>inventory = JArr [phone 2000 ''Samsung'' ''Galaxy A54'' ''123456789012345''],
         isEditing = False, editingId = JNull, localStorage = [storageKey \<mapsto> ''<json>'']\<rparr>)"
  by (simp add: handler_defs)

section \<open>The claim about the round trip through storage\<close>

text \<open>
  C4, as the code has it. Given that the platform's parser reads back what its
  serialiser wrote for the inventory (and rejects the empty text): when the write
  succeeds, \<open>loadInventory\<close> on the storage left by \<open>saveInventory\<close>, and so the
  constructor after a restart, returns the inventory that was persisted; when the
  write fails, \<open>saveInventory\<close> reports the failure and changes nothing, so that
  loading returns what the storage gave before. In both cases the inventory in memory
  stays as it is.
\<close>

theorem persist_then_load_roundtrip:
  assumes "parse [] = None" and "parse (stringify (inventory st)) = Some (inventory st)"
  shows "(write_ok \<longrightarrow>
            loadInventory parse (localStorage (snd (saveInventory stringify write_ok st)))
              = inventory st
            \<and> inventory (constructor parse (localStorage (snd (saveInventory stringify write_ok st))))
                = inventory st
            \<and> fst (saveInventory stringify write_ok st) = [])
       \<and> (\<not> write_ok \<longrightarrow>
            saveInventory stringify write_ok st
              = ([Error ''Failed to save data. Storage might be full.''], st)
            \<and> loadInventory parse (localStorage (snd (saveInventory stringify write_ok st)))
                = loadInventory parse (localStorage st))
       \<and> inventory (snd (saveInventory stringify write_ok st)) = inventory st"
proof -
  from assms have "stringify (inventory st) \<noteq> []" by auto
  with assms show ?thesis
    by (simp add: loadInventory_def constructor_def saveInventory_def)
qed

theorem persist_then_load_roundtrip_witness:
  "sample_parse [] = None
   \<and> sample_parse (sample_stringify (inventory (manager_with [phoneA, phoneB])))
       = Some (inventory (manager_with [phoneA, phoneB]))
   \<and> loadInventory sample_parse
        (localStorage (snd (saveInventory sample_stringify True (manager_with [phoneA, phoneB]))))
       = JArr [phoneA, phoneB]
   \<and> loadInventory sample_parse
        (localStorage (snd (saveInventory sample_stringify False (manager_with [phoneA, phoneB]))))
       = JArr []"
proof -
  let ?st = "manager_with [phoneA, phoneB]"
  have h1: "sample_parse [] = None" by (simp add: sample_parse_def)
  have h2: "sample_parse (sample_stringify (inventory ?st)) = Some (inventory ?st)"
    by (simp add: sample_defs manager_with_def phone_def)
  from persist_then_load_roundtrip [of sample_parse sample_stringify ?st True, OF h1 h2]
       persist_then_load_roundtrip [of sample_parse sample_stringify ?st False, OF h1 h2]
       h1 h2
  show ?thesis by (simp add: manager_with_def loadInventory_def)
qed

text \<open>
  C4 as the specification states it fails when the write fails: after one record has
  been added and saved and a second one added while the storage is full, persisting
  again reports the failure, and loading returns the inventory of one record, not the
  two that were to be persisted.
\<close>

theorem persist_failed_write_counterexample:
  "inventory (snd (handleFormSubmit sample_stringify False 2
        (phone_form ''Apple'' ''iPhone 13'' ''234567890123456'')
        (snd (handleFormSubmit sample_stringify True 1
           (phone_form ''Samsung'' ''Galaxy A54'' ''123456789012345'') (manager_with [])))))
     = JArr [phoneA, phoneB]
   \<and> sample_parse (sample_stringify (JArr [phoneA, phoneB])) = Some (JArr [phoneA, phoneB])
   \<and> fst (saveInventory sample_stringify False
        (snd (handleFormSubmit sample_stringify False 2
           (phone_form ''Apple'' ''iPhone 13'' ''234567890123456'')
           (snd (handleFormSubmit sample_stringify True 1
              (phone_form ''Samsung'' ''Galaxy A54'' ''123456789012345'') (manager_with []))))))
     = [Error ''Failed to save data. Storage might be full.'']
   \<and> loadInventory sample_parse (localStorage (snd (saveInventory sample_stringify False
        (snd (handleFormSubmit sample_stringify False 2
           (phone_form ''Apple'' ''iPhone 13'' ''234567890123456'')
           (snd (handleFormSubmit sample_stringify True 1
              (phone_form ''Samsung'' ''Galaxy A54'' ''123456789012345'') (manager_with []))))))))
     = JArr [phoneA]
   \<and> JArr [phoneA] \<noteq> JArr [phoneA, phoneB]"
  by (simp add: handler_defs sample_defs loadInventory_def)

end
